theory Spec2Isabelle
  imports Complex_Main "HOL-Library.AList"
begin

section \<open>Values, exceptions and Python helpers\<close>

text \<open>
  Python \<open>str\<close> values are modelled as \<open>string\<close>, read as the UTF-8 encoding of the text
  (so the Korean status literals of the source are byte sequences). The values that
  \<open>json.loads\<close> produces are the datatype \<open>jval\<close>; a Python \<open>dict\<close> is an association list
  with distinct keys in insertion order. Floating point numbers are outside the model.
\<close>

datatype jval =
    JNull
  | JBool bool
  | JInt int
  | JStr string
  | JArr "jval list"
  | JObj "(string \<times> jval) list"

text \<open>
  The exceptions that the modelled code can meet. \<open>UserError\<close> stands for any other class
  derived from \<open>Exception\<close>; \<open>CancelledError\<close>, \<open>KeyboardInterrupt\<close> and \<open>SystemExit\<close>
  derive from \<open>BaseException\<close> only, so \<open>except Exception\<close> does not catch them.
\<close>

datatype exn =
    ConnectionClosed
  | JSONDecodeError
  | AttributeError
  | TypeError
  | ValueError
  | UserError string
  | CancelledError
  | KeyboardInterrupt
  | SystemExit

fun is_Exception :: "exn \<Rightarrow> bool" where
  "is_Exception CancelledError = False"
| "is_Exception KeyboardInterrupt = False"
| "is_Exception SystemExit = False"
| "is_Exception _ = True"

text \<open>\<open>x.get(k, default)\<close>: only a dict has the method; anything else raises AttributeError.\<close>

fun dict_of :: "jval \<Rightarrow> exn + (string \<times> jval) list" where
  "dict_of (JObj kvs) = Inr kvs"
| "dict_of _ = Inl AttributeError"

definition py_get :: "(string \<times> jval) list \<Rightarrow> string \<Rightarrow> jval \<Rightarrow> jval" where
  "py_get kvs k dflt = (case map_of kvs k of None \<Rightarrow> dflt | Some v \<Rightarrow> v)"

text \<open>\<open>x == 'literal'\<close>: true only for a str with the same text.\<close>

fun py_eq_str :: "jval \<Rightarrow> string \<Rightarrow> bool" where
  "py_eq_str (JStr s) t = (s = t)"
| "py_eq_str _ t = False"

text \<open>
  Keys of a Python dict: lists and dicts are unhashable (TypeError); \<open>True\<close> and \<open>1\<close>,
  \<open>False\<close> and \<open>0\<close> are the same key.
\<close>

datatype pkey = KNone | KInt int | KStr string

fun py_key :: "jval \<Rightarrow> exn + pkey" where
  "py_key JNull = Inr KNone"
| "py_key (JBool b) = Inr (KInt (if b then 1 else 0))"
| "py_key (JInt n) = Inr (KInt n)"
| "py_key (JStr s) = Inr (KStr s)"
| "py_key (JArr xs) = Inl TypeError"
| "py_key (JObj kvs) = Inl TypeError"

text \<open>The status and side literals of the source, as UTF-8 bytes.\<close>

definition ST_RECEIVED :: string where
  "ST_RECEIVED = [CHR 0xEC, CHR 0xA0, CHR 0x91, CHR 0xEC, CHR 0x88, CHR 0x98]"

definition ST_FILLED :: string where
  "ST_FILLED = [CHR 0xEC, CHR 0xB2, CHR 0xB4, CHR 0xEA, CHR 0xB2, CHR 0xB0]"

definition ST_ORDER :: string where
  "ST_ORDER = [CHR 0xEC, CHR 0xA3, CHR 0xBC, CHR 0xEB, CHR 0xAC, CHR 0xB8]"

definition SIDE_BUY :: string where
  "SIDE_BUY = [CHR 0xEB, CHR 0xA7, CHR 0xA4, CHR 0xEC, CHR 0x88, CHR 0x98]"

definition SIDE_SELL :: string where
  "SIDE_SELL = [CHR 0xEB, CHR 0xA7, CHR 0xA4, CHR 0xEB, CHR 0x8F, CHR 0x84]"

section \<open>JSON text\<close>

text \<open>
  \<open>json.dumps\<close> with its defaults: separators \<open>", "\<close> and \<open>": "\<close>, keys in the order of the
  dict, \<open>ensure_ascii=True\<close>. A str is decoded from UTF-8 to code points to be escaped;
  bytes that are not UTF-8 (which no Python str gives) are escaped one by one.
\<close>

definition BACKSLASH :: char where
  "BACKSLASH = CHR 0x5C"

definition DQUOTE :: char where
  "DQUOTE = CHR 0x22"

definition is_cont :: "char \<Rightarrow> bool" where
  "is_cont c = (let n = (of_char c :: int) in 128 \<le> n \<and> n < 192)"

definition cont_bits :: "char \<Rightarrow> int" where
  "cont_bits c = of_char c - 128"

fun utf8_decode :: "string \<Rightarrow> int list" where
  "utf8_decode [] = []"
| "utf8_decode [c] = [of_char c]"
| "utf8_decode [c, c1] =
     (let n = (of_char c :: int) in
      if 192 \<le> n \<and> n < 224 \<and> is_cont c1 then [(n - 192) * 64 + cont_bits c1]
      else n # utf8_decode [c1])"
| "utf8_decode [c, c1, c2] =
     (let n = (of_char c :: int) in
      if 192 \<le> n \<and> n < 224 \<and> is_cont c1 then ((n - 192) * 64 + cont_bits c1) # utf8_decode [c2]
      else if 224 \<le> n \<and> n < 240 \<and> is_cont c1 \<and> is_cont c2
        then [(n - 224) * 4096 + cont_bits c1 * 64 + cont_bits c2]
      else n # utf8_decode [c1, c2])"
| "utf8_decode (c # c1 # c2 # c3 # cs) =
     (let n = (of_char c :: int) in
      if n < 128 then n # utf8_decode (c1 # c2 # c3 # cs)
      else if 192 \<le> n \<and> n < 224 \<and> is_cont c1
        then ((n - 192) * 64 + cont_bits c1) # utf8_decode (c2 # c3 # cs)
      else if 224 \<le> n \<and> n < 240 \<and> is_cont c1 \<and> is_cont c2
        then ((n - 224) * 4096 + cont_bits c1 * 64 + cont_bits c2) # utf8_decode (c3 # cs)
      else if 240 \<le> n \<and> n < 248 \<and> is_cont c1 \<and> is_cont c2 \<and> is_cont c3
        then ((n - 240) * 262144 + cont_bits c1 * 4096 + cont_bits c2 * 64 + cont_bits c3)
               # utf8_decode cs
      else n # utf8_decode (c1 # c2 # c3 # cs))"

definition hex_digit :: "int \<Rightarrow> char" where
  "hex_digit n = (if n < 10 then char_of (48 + n) else char_of (87 + n))"

definition u_escape :: "int \<Rightarrow> string" where
  "u_escape cp = [BACKSLASH, CHR ''u'', hex_digit (cp div 4096 mod 16),
      hex_digit (cp div 256 mod 16), hex_digit (cp div 16 mod 16), hex_digit (cp mod 16)]"

definition escape_cp :: "int \<Rightarrow> string" where
  "escape_cp cp =
     (if cp = 34 then [BACKSLASH, DQUOTE]
      else if cp = 92 then [BACKSLASH, BACKSLASH]
      else if cp = 10 then [BACKSLASH, CHR ''n'']
      else if cp = 13 then [BACKSLASH, CHR ''r'']
      else if cp = 9 then [BACKSLASH, CHR ''t'']
      else if cp = 8 then [BACKSLASH, CHR ''b'']
      else if cp = 12 then [BACKSLASH, CHR ''f'']
      else if 32 \<le> cp \<and> cp \<le> 126 then [char_of cp]
      else if cp < 65536 then u_escape cp
      else u_escape (55296 + (cp - 65536) div 1024) @ u_escape (56320 + (cp - 65536) mod 1024))"

definition dumps_str :: "string \<Rightarrow> string" where
  "dumps_str s = DQUOTE # concat (map escape_cp (utf8_decode s)) @ [DQUOTE]"

text \<open>\<open>str(n)\<close> for an int.\<close>

function show_digits :: "int \<Rightarrow> string" where
  "show_digits n =
     (if n < 10 then [char_of (48 + n)] else show_digits (n div 10) @ [char_of (48 + n mod 10)])"
  by pat_completeness auto
termination
  by (relation "measure nat") auto

definition show_int :: "int \<Rightarrow> string" where
  "show_int i = (if i < 0 then CHR ''-'' # show_digits (- i) else show_digits i)"

fun join_with :: "string \<Rightarrow> string list \<Rightarrow> string" where
  "join_with sep [] = []"
| "join_with sep [x] = x"
| "join_with sep (x # y # ys) = x @ sep @ join_with sep (y # ys)"

primrec json_dumps :: "jval \<Rightarrow> string" where
  "json_dumps JNull = ''null''"
| "json_dumps (JBool b) = (if b then ''true'' else ''false'')"
| "json_dumps (JInt i) = show_int i"
| "json_dumps (JStr s) = dumps_str s"
| "json_dumps (JArr xs) = ''['' @ join_with '', '' (map json_dumps xs) @ '']''"
| "json_dumps (JObj kvs) =
     ''{'' @ join_with '', ''
        (map (\<lambda>kt. dumps_str (fst kt) @ '': '' @ snd kt) (map (map_prod id json_dumps) kvs))
      @ ''}''"

text \<open>
  \<open>json.loads\<close> on a str. \<open>None\<close> is a JSONDecodeError, or a text outside the model:
  a number with a fraction or an exponent, \<open>NaN\<close>, \<open>Infinity\<close>, an escape for a lone
  surrogate, or an integer of more than 4300 digits (which \<open>int()\<close> refuses with a
  ValueError). A repeated key keeps its first position and its last value, as in a dict.
\<close>

definition json_ws :: "char \<Rightarrow> bool" where
  "json_ws c = (c = CHR 0x20 \<or> c = CHR 0x09 \<or> c = CHR 0x0A \<or> c = CHR 0x0D)"

definition skip_ws :: "string \<Rightarrow> string" where
  "skip_ws s = dropWhile json_ws s"

definition hex_val :: "char \<Rightarrow> int option" where
  "hex_val c =
     (let n = (of_char c :: int) in
      if 48 \<le> n \<and> n \<le> 57 then Some (n - 48)
      else if 97 \<le> n \<and> n \<le> 102 then Some (n - 87)
      else if 65 \<le> n \<and> n \<le> 70 then Some (n - 55)
      else None)"

definition parse_hex4 :: "string \<Rightarrow> int option" where
  "parse_hex4 s =
     (case map hex_val (take 4 s) of
        [Some a, Some b, Some c, Some d] \<Rightarrow> Some (a * 4096 + b * 256 + c * 16 + d)
      | _ \<Rightarrow> None)"

definition utf8_encode :: "int \<Rightarrow> string" where
  "utf8_encode cp =
     (if cp < 128 then [char_of cp]
      else if cp < 2048 then [char_of (192 + cp div 64), char_of (128 + cp mod 64)]
      else if cp < 65536 then
        [char_of (224 + cp div 4096), char_of (128 + cp div 64 mod 64), char_of (128 + cp mod 64)]
      else
        [char_of (240 + cp div 262144), char_of (128 + cp div 4096 mod 64),
         char_of (128 + cp div 64 mod 64), char_of (128 + cp mod 64)])"

definition simple_escape :: "char \<Rightarrow> char option" where
  "simple_escape e =
     (if e = DQUOTE then Some DQUOTE
      else if e = BACKSLASH then Some BACKSLASH
      else if e = CHR ''/'' then Some (CHR ''/'')
      else if e = CHR ''b'' then Some (CHR 0x08)
      else if e = CHR ''f'' then Some (CHR 0x0C)
      else if e = CHR ''n'' then Some (CHR 0x0A)
      else if e = CHR ''r'' then Some (CHR 0x0D)
      else if e = CHR ''t'' then Some (CHR 0x09)
      else None)"

definition is_high :: "int \<Rightarrow> bool" where
  "is_high u = (55296 \<le> u \<and> u < 56320)"

definition is_low :: "int \<Rightarrow> bool" where
  "is_low u = (56320 \<le> u \<and> u < 57344)"

definition prepend :: "string \<Rightarrow> (string \<times> string) option \<Rightarrow> (string \<times> string) option" where
  "prepend p r = (case r of None \<Rightarrow> None | Some (t, rest) \<Rightarrow> Some (p @ t, rest))"

text \<open>The text of a string after its opening quote: the decoded str and what follows the closing quote.\<close>

function parse_string_body :: "string \<Rightarrow> (string \<times> string) option" where
  "parse_string_body [] = None"
| "parse_string_body (c # cs) =
     (if c = DQUOTE then Some ([], cs)
      else if c = BACKSLASH then
        (case cs of
           [] \<Rightarrow> None
         | e # r \<Rightarrow>
            if e = CHR ''u'' then
              (case parse_hex4 r of
                 None \<Rightarrow> None
               | Some u \<Rightarrow>
                  if is_high u then
                    (if take 2 (drop 4 r) = [BACKSLASH, CHR ''u''] then
                       (case parse_hex4 (drop 6 r) of
                          None \<Rightarrow> None
                        | Some l \<Rightarrow>
                           if is_low l
                           then prepend (utf8_encode (65536 + (u - 55296) * 1024 + (l - 56320)))
                                  (parse_string_body (drop 10 r))
                           else None)
                     else None)
                  else if is_low u then None
                  else prepend (utf8_encode u) (parse_string_body (drop 4 r)))
            else
              (case simple_escape e of
                 None \<Rightarrow> None
               | Some ch \<Rightarrow> prepend [ch] (parse_string_body r)))
      else if (of_char c :: int) < 32 then None
      else prepend [c] (parse_string_body cs))"
  by pat_completeness auto
termination
  by (relation "measure length") auto

definition is_digit_char :: "char \<Rightarrow> bool" where
  "is_digit_char c = (let n = (of_char c :: int) in 48 \<le> n \<and> n \<le> 57)"

definition digits_value :: "string \<Rightarrow> int" where
  "digits_value ds = foldl (\<lambda>acc c. acc * 10 + (int (of_char c) - 48)) 0 ds"

text \<open>An integer literal after its sign: \<open>0\<close> or a digit string that does not start with \<open>0\<close>.\<close>

definition parse_nat_lit :: "string \<Rightarrow> (int \<times> string) option" where
  "parse_nat_lit s =
     (let ds = takeWhile is_digit_char s; r = dropWhile is_digit_char s in
      if ds = [] then None
      else if hd ds = CHR ''0'' then
        (case tl s of
           [] \<Rightarrow> Some (0, [])
         | c # cs \<Rightarrow> if c = CHR ''.'' \<or> c = CHR ''e'' \<or> c = CHR ''E'' then None else Some (0, c # cs))
      else if 4300 < int (length ds) then None
      else
        (case r of
           [] \<Rightarrow> Some (digits_value ds, [])
         | c # cs \<Rightarrow> if c = CHR ''.'' \<or> c = CHR ''e'' \<or> c = CHR ''E'' then None
                     else Some (digits_value ds, r)))"

definition strip_prefix :: "string \<Rightarrow> string \<Rightarrow> string option" where
  "strip_prefix p s = (if take (length p) s = p then Some (drop (length p) s) else None)"

text \<open>After white space, the next character must be \<open>c\<close>.\<close>

definition expect :: "char \<Rightarrow> string \<Rightarrow> string option" where
  "expect c s = (case skip_ws s of [] \<Rightarrow> None | x # r \<Rightarrow> if x = c then Some r else None)"

definition dict_of_pairs :: "(string \<times> jval) list \<Rightarrow> (string \<times> jval) list" where
  "dict_of_pairs ps = foldl (\<lambda>d kv. AList.update (fst kv) (snd kv) d) [] ps"

text \<open>
  The recursive descent, with fuel for the depth of the calls (each call but one in two
  reads a character, so twice the length of the text is enough).
\<close>

fun parse_value :: "nat \<Rightarrow> string \<Rightarrow> (jval \<times> string) option"
  and parse_elems :: "nat \<Rightarrow> string \<Rightarrow> (jval list \<times> string) option"
  and parse_members :: "nat \<Rightarrow> string \<Rightarrow> ((string \<times> jval) list \<times> string) option"
where
  "parse_value 0 s = None"
| "parse_value (Suc n) s =
     (case skip_ws s of
        [] \<Rightarrow> None
      | c # cs \<Rightarrow>
         if c = DQUOTE then
           (case parse_string_body cs of None \<Rightarrow> None | Some (t, r) \<Rightarrow> Some (JStr t, r))
         else if c = CHR ''['' then
           (case expect (CHR '']'') cs of
              Some r \<Rightarrow> Some (JArr [], r)
            | None \<Rightarrow> (case parse_elems n cs of None \<Rightarrow> None | Some (vs, r) \<Rightarrow> Some (JArr vs, r)))
         else if c = CHR ''{'' then
           (case expect (CHR ''}'') cs of
              Some r \<Rightarrow> Some (JObj [], r)
            | None \<Rightarrow> (case parse_members n cs of
                         None \<Rightarrow> None
                       | Some (ps, r) \<Rightarrow> Some (JObj (dict_of_pairs ps), r)))
         else if c = CHR ''-'' then
           (case parse_nat_lit cs of None \<Rightarrow> None | Some (i, r) \<Rightarrow> Some (JInt (- i), r))
         else if is_digit_char c then
           (case parse_nat_lit (c # cs) of None \<Rightarrow> None | Some (i, r) \<Rightarrow> Some (JInt i, r))
         else
           (case strip_prefix ''null'' (c # cs) of
              Some r \<Rightarrow> Some (JNull, r)
            | None \<Rightarrow>
               (case strip_prefix ''true'' (c # cs) of
                  Some r \<Rightarrow> Some (JBool True, r)
                | None \<Rightarrow>
                   (case strip_prefix ''false'' (c # cs) of
                      Some r \<Rightarrow> Some (JBool False, r)
                    | None \<Rightarrow> None))))"
| "parse_elems 0 s = None"
| "parse_elems (Suc n) s =
     (case parse_value n s of
        None \<Rightarrow> None
      | Some (v, r) \<Rightarrow>
         (case expect (CHR '','') r of
            Some r1 \<Rightarrow> (case parse_elems n r1 of None \<Rightarrow> None | Some (vs, r2) \<Rightarrow> Some (v # vs, r2))
          | None \<Rightarrow> (case expect (CHR '']'') r of None \<Rightarrow> None | Some r1 \<Rightarrow> Some ([v], r1))))"
| "parse_members 0 s = None"
| "parse_members (Suc n) s =
     (case expect DQUOTE s of
        None \<Rightarrow> None
      | Some cs \<Rightarrow>
         (case parse_string_body cs of
            None \<Rightarrow> None
          | Some (k, r) \<Rightarrow>
             (case expect (CHR '':'') r of
                None \<Rightarrow> None
              | Some r1 \<Rightarrow>
                 (case parse_value n r1 of
                    None \<Rightarrow> None
                  | Some (v, r2) \<Rightarrow>
                     (case expect (CHR '','') r2 of
                        Some r3 \<Rightarrow>
                          (case parse_members n r3 of
                             None \<Rightarrow> None
                           | Some (ps, r4) \<Rightarrow> Some ((k, v) # ps, r4))
                      | None \<Rightarrow>
                          (case expect (CHR ''}'') r2 of
                             None \<Rightarrow> None
                           | Some r3 \<Rightarrow> Some ([(k, v)], r3)))))))"

definition json_loads :: "string \<Rightarrow> jval option" where
  "json_loads m =
     (case parse_value (2 * length m + 2) m of
        None \<Rightarrow> None
      | Some (v, r) \<Rightarrow> if skip_ws r = [] then Some v else None)"

section \<open>The state of \<open>KiwoomWebSocket\<close>\<close>

text \<open>The dict built by \<open>_parse_order_execution\<close>.\<close>

record order_data =
  order_no :: jval
  stock_code :: jval
  stock_name :: jval
  order_status :: jval
  buy_sell :: string
  action :: string
  order_qty :: int
  exec_qty :: int
  exec_price :: int
  remain_qty :: int

text \<open>The dict built by \<open>_parse_balance\<close>.\<close>

record balance_data =
  b_time :: string
  ord_psbl_cash :: jval
  tot_evlu_amt :: jval
  b_stock_code :: jval
  holding_qty :: jval
  avg_price :: jval
  raw_data :: jval

datatype payload = OrderPayload order_data | BalancePayload balance_data

text \<open>
  What the object does that can be seen from outside: the socket opened and closed,
  frames sent on it, calls of
  registered callbacks, and the log lines of the timer supervisor and of the receive loop's
  exception handlers. The timeout notification of \<open>_order_timeout\<close> is its block of log
  lines (order number, stock code, side).
\<close>

datatype event =
    SocketOpened
  | SocketClosed
  | Sent string
  | Called string payload
  | LogTimerStarted jval
  | LogTimerCancelled jval
  | LogTimeout jval jval string
  | LogConnectionClosed
  | LogJsonError
  | LogReceiveError exn
  | LogLoginFailed
  | LogFatalSystem

text \<open>
  An \<open>asyncio\<close> task running \<open>_order_timeout\<close>: it sleeps until \<open>t_wake\<close>, unless it is
  cancelled first. A task handle is the task's index in \<open>tasks\<close>.
\<close>

datatype task_status = Sleeping | Cancelled | Finished

record timer_task =
  t_order_no :: jval
  t_data :: order_data
  t_wake :: rat
  t_status :: task_status

record ws_state =
  account_no :: "string option"
  websocket :: bool
  is_connected :: bool
  callbacks :: "(string \<times> string) list"
  subscriptions :: "string list"
  order_timers :: "(pkey \<times> nat) list"
  tasks :: "timer_task list"
  clock :: rat
  trace :: "event list"

definition init_ws :: "string option \<Rightarrow> ws_state" where
  "init_ws acct = \<lparr> account_no = acct, websocket = False, is_connected = False,
     callbacks = [], subscriptions = [], order_timers = [], tasks = [],
     clock = 0, trace = [] \<rparr>"

definition emit :: "event \<Rightarrow> ws_state \<Rightarrow> ws_state" where
  "emit e s = s\<lparr>trace := trace s @ [e]\<rparr>"

section \<open>The order timer supervisor\<close>

definition TIMEOUT_SECONDS :: rat where
  "TIMEOUT_SECONDS = 300"

text \<open>\<open>Task.cancel()\<close>: a task that is already done is left alone.\<close>

definition cancel_task :: "nat \<Rightarrow> ws_state \<Rightarrow> ws_state" where
  "cancel_task i s =
     (if i < length (tasks s) \<and> t_status (tasks s ! i) = Sleeping
      then s\<lparr>tasks := (tasks s)[i := (tasks s ! i)\<lparr>t_status := Cancelled\<rparr>]\<rparr>
      else s)"

text \<open>\<open>asyncio.create_task(self._order_timeout(order_no, data))\<close>; the new handle is returned.\<close>

definition create_timer_task :: "order_data \<Rightarrow> ws_state \<Rightarrow> nat \<times> ws_state" where
  "create_timer_task d s =
     (length (tasks s),
      s\<lparr>tasks := tasks s @ [\<lparr> t_order_no = order_no d, t_data = d,
            t_wake = clock s + TIMEOUT_SECONDS, t_status = Sleeping \<rparr>]\<rparr>)"

text \<open>
  \<open>_manage_order_timer\<close>. The result is the state and the exception raised, if any: the
  membership test raises TypeError for an unhashable order number, after the log line.
\<close>

definition manage_order_timer :: "order_data \<Rightarrow> ws_state \<Rightarrow> ws_state \<times> exn option" where
  "manage_order_timer d s =
     (if py_eq_str (order_status d) ST_RECEIVED then
        (let s1 = emit (LogTimerStarted (order_no d)) s in
         case py_key (order_no d) of
           Inl e \<Rightarrow> (s1, Some e)
         | Inr k \<Rightarrow>
            (let s2 = (case map_of (order_timers s1) k of
                         Some i \<Rightarrow> cancel_task i s1
                       | None \<Rightarrow> s1);
                 (h, s3) = create_timer_task d s2
             in (s3\<lparr>order_timers := AList.update k h (order_timers s3)\<rparr>, None)))
      else if py_eq_str (order_status d) ST_FILLED then
        (case py_key (order_no d) of
           Inl e \<Rightarrow> (s, Some e)
         | Inr k \<Rightarrow>
            (case map_of (order_timers s) k of
               Some i \<Rightarrow>
                 (let s1 = cancel_task i s;
                      s2 = s1\<lparr>order_timers := AList.delete k (order_timers s1)\<rparr>
                  in (emit (LogTimerCancelled (order_no d)) s2, None))
             | None \<Rightarrow> (s, None)))
      else (s, None))"

text \<open>
  \<open>_order_timeout\<close> after its sleep: task \<open>i\<close> can resume only while it is still sleeping
  and its five minutes have passed. It writes the timeout notification and removes the
  entry of its order number from the timer map.
\<close>

definition order_timeout :: "nat \<Rightarrow> ws_state \<Rightarrow> ws_state option" where
  "order_timeout i s =
     (if i < length (tasks s) \<and> t_status (tasks s ! i) = Sleeping
         \<and> t_wake (tasks s ! i) \<le> clock s
      then
        (let t = tasks s ! i;
             s1 = emit (LogTimeout (t_order_no t) (stock_code (t_data t)) (buy_sell (t_data t))) s;
             s2 = s1\<lparr>tasks := (tasks s1)[i := t\<lparr>t_status := Finished\<rparr>]\<rparr>
         in case py_key (t_order_no t) of
              Inl e \<Rightarrow> Some s2
            | Inr k \<Rightarrow>
               (case map_of (order_timers s2) k of
                  Some j \<Rightarrow> Some (s2\<lparr>order_timers := AList.delete k (order_timers s2)\<rparr>)
                | None \<Rightarrow> Some s2))
      else None)"

text \<open>
  The event loop seen from the supervisor: time passes, a sleeping timer whose deadline
  has passed resumes, or an order event is handed to \<open>_manage_order_timer\<close>. An action that
  cannot happen in the current state gives \<open>None\<close>. Nothing forces a due timer to resume
  before the next order event, so every interleaving of the race is a run.
\<close>

datatype action = Advance rat | Expire nat | Deliver order_data

fun step :: "action \<Rightarrow> ws_state \<Rightarrow> ws_state option" where
  "step (Advance t) s = (if clock s \<le> t then Some (s\<lparr>clock := t\<rparr>) else None)"
| "step (Expire i) s = order_timeout i s"
| "step (Deliver d) s = Some (fst (manage_order_timer d s))"

fun run :: "action list \<Rightarrow> ws_state \<Rightarrow> ws_state option" where
  "run [] s = Some s"
| "run (a # as) s = (case step a s of None \<Rightarrow> None | Some s' \<Rightarrow> run as s')"

section \<open>Decoding order and balance records\<close>

text \<open>
  \<open>int(value)\<close> on a str, as CPython 3.11 does it, with the character tables of
  Unicode 14.0. A str with a character outside ASCII is first rewritten: characters up
  to 126 stay, a character that \<open>str.isspace\<close> accepts becomes a blank, a decimal digit of
  any script becomes its ASCII digit, and at any other character the text is cut and
  marked with a question mark. An ASCII str is taken as it is. Then the blanks that C
  knows (9 to 13 and 32, not 28 to 31) are dropped at both ends, and what is left must be
  an optional sign and decimal digits, where single underscores may separate digits.
  More than 4300 digits, the default limit of the interpreter, are refused. Anything
  else raises ValueError (\<open>None\<close>).
\<close>

text \<open>The first code point of each run of ten decimal digits, zero to nine.\<close>

definition DECIMAL_STARTS :: "int list" where
  "DECIMAL_STARTS =
     [
      0x30, 0x660, 0x6F0, 0x7C0, 0x966, 0x9E6, 0xA66, 0xAE6,
      0xB66, 0xBE6, 0xC66, 0xCE6, 0xD66, 0xDE6, 0xE50, 0xED0,
      0xF20, 0x1040, 0x1090, 0x17E0, 0x1810, 0x1946, 0x19D0, 0x1A80,
      0x1A90, 0x1B50, 0x1BB0, 0x1C40, 0x1C50, 0xA620, 0xA8D0, 0xA900,
      0xA9D0, 0xA9F0, 0xAA50, 0xABF0, 0xFF10, 0x104A0, 0x10D30, 0x11066,
      0x110F0, 0x11136, 0x111D0, 0x112F0, 0x11450, 0x114D0, 0x11650, 0x116C0,
      0x11730, 0x118E0, 0x11950, 0x11C50, 0x11D50, 0x11DA0, 0x16A60, 0x16AC0,
      0x16B50, 0x1D7CE, 0x1D7D8, 0x1D7E2, 0x1D7EC, 0x1D7F6, 0x1E140, 0x1E2F0,
      0x1E950, 0x1FBF0]"

definition uc_decimal :: "int \<Rightarrow> int option" where
  "uc_decimal c =
     (case filter (\<lambda>z. z \<le> c \<and> c \<le> z + 9) DECIMAL_STARTS of
        [] \<Rightarrow> None
      | z # _ \<Rightarrow> Some (c - z))"

text \<open>The characters that \<open>str.isspace\<close> and \<open>str.strip\<close> take as blanks.\<close>

definition uc_space :: "int \<Rightarrow> bool" where
  "uc_space c =
     ((9 \<le> c \<and> c \<le> 13) \<or> (28 \<le> c \<and> c \<le> 32) \<or> c = 0x85 \<or> c = 0xA0 \<or> c = 0x1680
      \<or> (0x2000 \<le> c \<and> c \<le> 0x200A) \<or> c = 0x2028 \<or> c = 0x2029 \<or> c = 0x202F
      \<or> c = 0x205F \<or> c = 0x3000)"

text \<open>The blanks that the C parser of \<open>int()\<close> skips.\<close>

definition c_space :: "int \<Rightarrow> bool" where
  "c_space c = ((9 \<le> c \<and> c \<le> 13) \<or> c = 32)"

fun to_ascii :: "int list \<Rightarrow> int list" where
  "to_ascii [] = []"
| "to_ascii (c # cs) =
     (if c < 127 then c # to_ascii cs
      else if uc_space c then 32 # to_ascii cs
      else (case uc_decimal c of
              None \<Rightarrow> [63]
            | Some d \<Rightarrow> (48 + d) # to_ascii cs))"

definition int_text :: "string \<Rightarrow> int list" where
  "int_text s =
     (let cps = utf8_decode s in
      if list_all (\<lambda>c. c < 128) cps then cps else to_ascii cps)"

definition c_strip :: "int list \<Rightarrow> int list" where
  "c_strip s = rev (dropWhile c_space (rev (dropWhile c_space s)))"

definition is_digit :: "int \<Rightarrow> bool" where
  "is_digit c = (48 \<le> c \<and> c \<le> 57)"

definition digit_val :: "int \<Rightarrow> int" where
  "digit_val c = c - 48"

fun py_digits :: "int \<Rightarrow> int list \<Rightarrow> int option" where
  "py_digits acc [] = Some acc"
| "py_digits acc [c] = (if is_digit c then Some (acc * 10 + digit_val c) else None)"
| "py_digits acc (c # c2 # cs) =
     (if is_digit c then py_digits (acc * 10 + digit_val c) (c2 # cs)
      else if c = 95 \<and> is_digit c2 then py_digits (acc * 10 + digit_val c2) cs
      else None)"

definition py_unsigned :: "int list \<Rightarrow> int option" where
  "py_unsigned s =
     (case s of
        [] \<Rightarrow> None
      | c # cs \<Rightarrow> if is_digit c then py_digits (digit_val c) cs else None)"

definition INT_MAX_STR_DIGITS :: int where
  "INT_MAX_STR_DIGITS = 4300"

definition digit_count :: "int list \<Rightarrow> int" where
  "digit_count s = int (length (filter is_digit s))"

definition py_int :: "string \<Rightarrow> int option" where
  "py_int s =
     (let t = c_strip (int_text s) in
      if INT_MAX_STR_DIGITS < digit_count t then None
      else case t of
             [] \<Rightarrow> None
           | c # cs \<Rightarrow>
               if c = 45 then map_option uminus (py_unsigned cs)
               else if c = 43 then py_unsigned cs
               else py_unsigned (c # cs))"

text \<open>\<open>not value\<close>: the values that Python takes as false.\<close>

fun py_falsy :: "jval \<Rightarrow> bool" where
  "py_falsy JNull = True"
| "py_falsy (JBool b) = (\<not> b)"
| "py_falsy (JInt n) = (n = 0)"
| "py_falsy (JStr s) = (s = [])"
| "py_falsy (JArr xs) = (xs = [])"
| "py_falsy (JObj kvs) = (kvs = [])"

text \<open>
  \<open>str(value).strip() == ''\<close>: true for a str of blanks only; no other value prints as
  blank.
\<close>

fun py_blank :: "jval \<Rightarrow> bool" where
  "py_blank (JStr s) = list_all uc_space (utf8_decode s)"
| "py_blank _ = False"

text \<open>\<open>int(value)\<close>: ValueError for bad text, TypeError for None, lists and dicts.\<close>

fun py_int_of :: "jval \<Rightarrow> exn + int" where
  "py_int_of (JInt n) = Inr n"
| "py_int_of (JBool b) = Inr (if b then 1 else 0)"
| "py_int_of (JStr s) = (case py_int s of None \<Rightarrow> Inl ValueError | Some n \<Rightarrow> Inr n)"
| "py_int_of _ = Inl TypeError"

text \<open>
  The local function \<open>safe_int\<close> of \<open>_parse_order_execution\<close>, with \<open>default=0\<close>. An int
  comes from \<open>json.loads\<close> and so has at most 4300 digits, which \<open>str\<close> prints.
\<close>

definition safe_int :: "jval \<Rightarrow> int" where
  "safe_int v =
     (if py_falsy v \<or> py_blank v then 0
      else case py_int_of v of Inl e \<Rightarrow> 0 | Inr n \<Rightarrow> n)"

definition parse_order_execution :: "jval \<Rightarrow> exn + order_data" where
  "parse_order_execution data =
     (case dict_of data of
        Inl e \<Rightarrow> Inl e
      | Inr d \<Rightarrow>
         (case dict_of (py_get d ''values'' (JObj [])) of
            Inl e \<Rightarrow> Inl e
          | Inr values \<Rightarrow>
             (let status0 = py_get values ''913'' (JStr []);
                  side = py_get values ''907'' (JStr []);
                  status = (if py_eq_str (py_get values ''913'' (JStr ''0'')) ST_ORDER
                            then JStr ST_RECEIVED else status0)
              in Inr \<lparr> order_no = py_get values ''9203'' (JStr []),
                        stock_code = py_get values ''9001'' (JStr []),
                        stock_name = py_get values ''302'' (JStr []),
                        order_status = status,
                        buy_sell = (if py_eq_str side ''2'' then SIDE_BUY else SIDE_SELL),
                        action = (if py_eq_str side ''2'' then SIDE_BUY else SIDE_SELL),
                        order_qty = safe_int (py_get values ''900'' (JStr ''0'')),
                        exec_qty = safe_int (py_get values ''911'' (JStr ''0'')),
                        exec_price = safe_int (py_get values ''910'' (JStr ''0'')),
                        remain_qty = safe_int (py_get values ''902'' (JStr ''0'')) \<rparr>)))"

text \<open>\<open>_parse_balance\<close>; the formatted wall-clock time is given by the caller.\<close>

definition parse_balance :: "string \<Rightarrow> (string \<times> jval) list \<Rightarrow> balance_data" where
  "parse_balance now d =
     \<lparr> b_time = now,
       ord_psbl_cash = py_get d ''ord_psbl_cash'' (JStr ''0''),
       tot_evlu_amt = py_get d ''tot_evlu_amt'' (JStr ''0''),
       b_stock_code = py_get d ''stck_shrn_iscd'' (JStr []),
       holding_qty = py_get d ''hldg_qty'' (JStr ''0''),
       avg_price = py_get d ''pchs_avg_pric'' (JStr ''0''),
       raw_data = JObj d \<rparr>"

section \<open>The execution event router\<close>

text \<open>
  What lies outside the object: how a registered callback behaves on a payload (it
  returns, or raises an exception) and the wall-clock time string. Callbacks are known by
  name; what they do to the rest of the program is not part of this model.
\<close>

record world =
  run_callback :: "string \<Rightarrow> payload \<Rightarrow> exn option"
  wall_clock :: string

text \<open>\<open>if name in self.callbacks: await self.callbacks[name](parsed_data)\<close>\<close>

definition invoke_callback :: "world \<Rightarrow> string \<Rightarrow> payload \<Rightarrow> ws_state \<Rightarrow> ws_state \<times> exn option" where
  "invoke_callback w name p s =
     (case map_of (callbacks s) name of
        None \<Rightarrow> (s, None)
      | Some h \<Rightarrow> (emit (Called h p) s, run_callback w h p))"

text \<open>The body of the loop of \<open>_handle_realtime_data\<close>, for one record.\<close>

definition handle_record :: "world \<Rightarrow> jval \<Rightarrow> ws_state \<Rightarrow> ws_state \<times> exn option" where
  "handle_record w data s =
     (case dict_of data of
        Inl e \<Rightarrow> (s, Some e)
      | Inr d \<Rightarrow>
         (let rt_type = py_get d ''type'' JNull in
          if py_eq_str rt_type ''04'' \<or> py_eq_str rt_type ''00'' then
            (case parse_order_execution data of
               Inl e \<Rightarrow> (s, Some e)
             | Inr p \<Rightarrow>
                (case manage_order_timer p s of
                   (s1, Some e) \<Rightarrow> (s1, Some e)
                 | (s1, None) \<Rightarrow> invoke_callback w ''order_execution'' (OrderPayload p) s1))
          else if py_eq_str rt_type ''05'' then
            invoke_callback w ''balance_update'' (BalancePayload (parse_balance (wall_clock w) d)) s
          else (s, None)))"

text \<open>The \<open>for\<close> loop: an exception ends it, and the records after it are not looked at.\<close>

fun handle_records :: "world \<Rightarrow> jval list \<Rightarrow> ws_state \<Rightarrow> ws_state \<times> exn option" where
  "handle_records w [] s = (s, None)"
| "handle_records w (data # rest) s =
     (case handle_record w data s of
        (s1, Some e) \<Rightarrow> (s1, Some e)
      | (s1, None) \<Rightarrow> handle_records w rest s1)"

text \<open>
  Iterating a value: a list gives its items, a dict its keys, a str its characters (here
  one per byte; none of them is a dict, so only the empty str passes the loop); anything
  else raises TypeError.
\<close>

fun py_iter :: "jval \<Rightarrow> exn + jval list" where
  "py_iter (JArr xs) = Inr xs"
| "py_iter (JObj kvs) = Inr (map (\<lambda>kv. JStr (fst kv)) kvs)"
| "py_iter (JStr s) = Inr (map (\<lambda>c. JStr [c]) s)"
| "py_iter _ = Inl TypeError"

definition handle_realtime_data :: "world \<Rightarrow> (string \<times> jval) list \<Rightarrow> ws_state \<Rightarrow> ws_state \<times> exn option" where
  "handle_realtime_data w response s =
     (case py_iter (py_get response ''data'' (JArr [])) of
        Inl e \<Rightarrow> (s, Some e)
      | Inr records \<Rightarrow> handle_records w records s)"

section \<open>The realtime connection\<close>

text \<open>
  \<open>connect\<close>: the token manager gives a token or raises; \<open>websockets.connect\<close> opens the
  socket or raises. On a failure the flag is cleared and the exception is raised again.
  The receive loop is started as a task of its own and the login frame is sent.
\<close>

definition send_login :: "string \<Rightarrow> ws_state \<Rightarrow> ws_state" where
  "send_login token s =
     (if websocket s \<and> is_connected s
      then emit (Sent (json_dumps (JObj [(''trnm'', JStr ''LOGIN''), (''token'', JStr token)]))) s
      else s)"

definition connect :: "exn + string \<Rightarrow> exn option \<Rightarrow> ws_state \<Rightarrow> ws_state \<times> exn option" where
  "connect token_result open_result s =
     (case token_result of
        Inl e \<Rightarrow> (s\<lparr>is_connected := False\<rparr>, Some e)
      | Inr token \<Rightarrow>
         (case open_result of
            Some e \<Rightarrow> (s\<lparr>is_connected := False\<rparr>, Some e)
          | None \<Rightarrow>
             (send_login token (emit SocketOpened (s\<lparr>websocket := True, is_connected := True\<rparr>)),
              None)))"

text \<open>\<open>disconnect\<close>: nothing happens when no socket was ever opened.\<close>

definition disconnect :: "ws_state \<Rightarrow> ws_state" where
  "disconnect s =
     (if websocket s then emit SocketClosed (s\<lparr>is_connected := False\<rparr>) else s)"

definition register_callback :: "string \<Rightarrow> string \<Rightarrow> ws_state \<Rightarrow> ws_state" where
  "register_callback event_type callback s =
     s\<lparr>callbacks := AList.update event_type callback (callbacks s)\<rparr>"

definition subscribe_order_execution :: "ws_state \<Rightarrow> ws_state" where
  "subscribe_order_execution s =
     (case account_no s of
        None \<Rightarrow> s
      | Some acct \<Rightarrow>
         if acct = [] then s
         else if websocket s \<and> is_connected s then
           (emit (Sent (json_dumps (JObj
               [(''trnm'', JStr ''REG''), (''grp_no'', JStr ''0001''), (''refresh'', JStr ''Y''),
                (''data'', JArr [JObj [(''item'', JArr [JStr acct]),
                                       (''type'', JArr [JStr ''00''])]])]))) s)
             \<lparr>subscriptions := subscriptions s @ [''order_execution'']\<rparr>
         else s)"

text \<open>\<open>x == n\<close> for an int \<open>n\<close>: a bool compares as 0 or 1.\<close>

fun py_eq_int :: "jval \<Rightarrow> int \<Rightarrow> bool" where
  "py_eq_int (JInt m) n = (m = n)"
| "py_eq_int (JBool b) n = ((if b then 1 else 0) = n)"
| "py_eq_int _ n = False"

text \<open>\<open>'text' in x\<close>: a substring of a str, an item of a list, a key of a dict; else TypeError.\<close>

fun has_infix :: "string \<Rightarrow> string \<Rightarrow> bool" where
  "has_infix p [] = (p = [])"
| "has_infix p (c # cs) = (take (length p) (c # cs) = p \<or> has_infix p cs)"

fun py_contains :: "string \<Rightarrow> jval \<Rightarrow> exn + bool" where
  "py_contains p (JStr s) = Inr (has_infix p s)"
| "py_contains p (JArr xs) = Inr (JStr p \<in> set xs)"
| "py_contains p (JObj kvs) = Inr (p \<in> fst ` set kvs)"
| "py_contains p _ = Inl TypeError"

definition handle_login :: "(string \<times> jval) list \<Rightarrow> ws_state \<Rightarrow> ws_state" where
  "handle_login response s =
     (if py_eq_int (py_get response ''return_code'' (JInt (- 1))) 0 then s
      else disconnect (emit LogLoginFailed s))"

text \<open>
  One pass of the \<open>try\<close> block of \<open>receive_messages\<close> on a decoded frame: it ends normally,
  with \<open>break\<close>, or with an exception.
\<close>

datatype outcome = Normal | Break | Raise exn

definition dispatch :: "world \<Rightarrow> jval \<Rightarrow> ws_state \<Rightarrow> ws_state \<times> outcome" where
  "dispatch w response s =
     (case dict_of response of
        Inl e \<Rightarrow> (s, Raise e)
      | Inr r \<Rightarrow>
         (let trnm = py_get r ''trnm'' (JStr []) in
          if py_eq_str trnm ''LOGIN'' then (handle_login r s, Normal)
          else if py_eq_str trnm ''PING'' then (emit (Sent (json_dumps response)) s, Normal)
          else if py_eq_str trnm ''REAL'' then
            (case handle_realtime_data w r s of
               (s1, None) \<Rightarrow> (s1, Normal)
             | (s1, Some e) \<Rightarrow> (s1, Raise e))
          else if py_eq_str trnm ''REG'' then (s, Normal)
          else if py_eq_str trnm ''SYSTEM'' then
            (case py_contains ''R10004'' (py_get r ''code'' (JStr [])) of
               Inl e \<Rightarrow> (s, Raise e)
             | Inr True \<Rightarrow> (emit LogFatalSystem (s\<lparr>is_connected := False\<rparr>), Break)
             | Inr False \<Rightarrow> (s, Normal))
          else (s, Normal)))"

text \<open>
  What \<open>recv()\<close> gives: a text frame, a binary frame, or ConnectionClosed. A binary frame
  is not decoded, and \<open>bytes\<close> has no \<open>get\<close>.
\<close>

datatype inbound = Text string | Binary string | RecvClosed

definition try_body :: "world \<Rightarrow> inbound \<Rightarrow> ws_state \<Rightarrow> ws_state \<times> outcome" where
  "try_body w msg s =
     (case msg of
        RecvClosed \<Rightarrow> (s, Raise ConnectionClosed)
      | Binary b \<Rightarrow> (s, Raise AttributeError)
      | Text m \<Rightarrow>
         (case json_loads m of
            None \<Rightarrow> (s, Raise JSONDecodeError)
          | Some response \<Rightarrow> dispatch w response s))"

text \<open>
  One iteration of the loop with its \<open>except\<close> clauses, in the order of the source. The
  loop goes on, ends, or dies with an exception that no clause catches.
\<close>

datatype loop_state = Continue | Stopped | Crashed exn

definition receive_one :: "world \<Rightarrow> inbound \<Rightarrow> ws_state \<Rightarrow> ws_state \<times> loop_state" where
  "receive_one w msg s =
     (case try_body w msg s of
        (s1, Normal) \<Rightarrow> (s1, Continue)
      | (s1, Break) \<Rightarrow> (s1, Stopped)
      | (s1, Raise e) \<Rightarrow>
         if e = ConnectionClosed then (emit LogConnectionClosed (s1\<lparr>is_connected := False\<rparr>), Stopped)
         else if e = JSONDecodeError then (emit LogJsonError s1, Continue)
         else if is_Exception e then (emit (LogReceiveError e) s1, Continue)
         else (s1, Crashed e))"

text \<open>\<open>while self.is_connected\<close>, over the frames that arrive; with no frame left the loop waits.\<close>

fun receive_messages :: "world \<Rightarrow> inbound list \<Rightarrow> ws_state \<Rightarrow> ws_state \<times> loop_state" where
  "receive_messages w [] s = (s, if is_connected s then Continue else Stopped)"
| "receive_messages w (msg # rest) s =
     (if \<not> is_connected s then (s, Stopped)
      else case receive_one w msg s of
             (s1, Continue) \<Rightarrow> receive_messages w rest s1
           | (s1, l) \<Rightarrow> (s1, l))"

section \<open>The trading window\<close>

text \<open>
  The fields of \<open>TradingConfig\<close> that the scheduler reads. \<open>datetime.now()\<close> is an argument:
  the weekday (Monday is 0) and the time of day.
\<close>

record TradingConfig =
  START_HOUR :: int
  START_MINUTE :: int
  END_HOUR :: int
  END_MINUTE :: int
  IS_OVER_NIGHT_MODE :: bool

record datetime =
  weekday :: nat
  hour :: nat
  minute :: nat
  second :: nat
  microsecond :: nat

type_synonym time_of_day = "nat \<times> nat \<times> nat \<times> nat"

text \<open>\<open>time(h, m)\<close> raises ValueError outside 0..23 and 0..59.\<close>

definition mk_time :: "int \<Rightarrow> int \<Rightarrow> exn + time_of_day" where
  "mk_time h m =
     (if 0 \<le> h \<and> h \<le> 23 \<and> 0 \<le> m \<and> m \<le> 59 then Inr (nat h, nat m, 0, 0) else Inl ValueError)"

definition time_of :: "datetime \<Rightarrow> time_of_day" where
  "time_of now = (hour now, minute now, second now, microsecond now)"

text \<open>The order of \<open>datetime.time\<close>: hour, then minute, second, microsecond.\<close>

fun time_le :: "time_of_day \<Rightarrow> time_of_day \<Rightarrow> bool" where
  "time_le (h1, m1, s1, u1) (h2, m2, s2, u2) =
     (h1 < h2 \<or> (h1 = h2 \<and> (m1 < m2 \<or> (m1 = m2 \<and> (s1 < s2 \<or> (s1 = s2 \<and> u1 \<le> u2))))))"

definition is_trading_time :: "TradingConfig \<Rightarrow> datetime \<Rightarrow> exn + bool" where
  "is_trading_time c now =
     (case mk_time (START_HOUR c) (START_MINUTE c) of
        Inl e \<Rightarrow> Inl e
      | Inr start \<Rightarrow>
         (case mk_time (END_HOUR c) (END_MINUTE c) of
            Inl e \<Rightarrow> Inl e
          | Inr end_t \<Rightarrow>
             if weekday now \<ge> 5 then Inr False
             else Inr (time_le start (time_of now) \<and> time_le (time_of now) end_t)))"

section \<open>The session scheduler: \<open>TradingMain\<close>\<close>

text \<open>
  The collaborators of \<open>TradingMain\<close> are outside the model; \<open>calls\<close> records each call to
  one of them, in order. What they answer is given by \<open>main_world\<close>: the balance query
  returns the cash, returns \<open>None\<close> or raises; the token manager and the socket library
  give a result or raise; \<open>sell_all_positions\<close> returns or raises. The attribute
  \<open>trading_task\<close> does not exist until a trading loop has been started.
\<close>

datatype call =
    GetAccountBalance
  | UpsertAccountInfo
  | WsConnect
  | WsSubscribe
  | CreateTradingTask
  | SellAllPositions
  | CancelTradingTask
  | WsDisconnect

datatype task_state = NoTask | TaskRunning | TaskDone

record main_world =
  balance_result :: "exn + int option"
  token_result :: "exn + string"
  open_result :: "exn option"
  sell_result :: "exn option"

record main_state =
  config :: TradingConfig
  is_trading_active :: bool
  available_cash :: int
  ws_client :: ws_state
  trading_controller :: bool
  trading_task :: task_state
  calls :: "call list"

definition init_main :: "TradingConfig \<Rightarrow> string option \<Rightarrow> main_state" where
  "init_main c acct = \<lparr> config = c, is_trading_active = False, available_cash = 0,
     ws_client = init_ws acct, trading_controller = False, trading_task = NoTask, calls = [] \<rparr>"

definition record_call :: "call \<Rightarrow> main_state \<Rightarrow> main_state" where
  "record_call c ms = ms\<lparr>calls := calls ms @ [c]\<rparr>"

definition initialize_account :: "main_world \<Rightarrow> main_state \<Rightarrow> main_state \<times> exn option" where
  "initialize_account w ms =
     (let ms1 = record_call GetAccountBalance ms in
      case balance_result w of
        Inl e \<Rightarrow> (ms1, Some e)
      | Inr (Some cash) \<Rightarrow> (record_call UpsertAccountInfo (ms1\<lparr>available_cash := cash\<rparr>), None)
      | Inr None \<Rightarrow> (ms1\<lparr>available_cash := 1000000\<rparr>, None))"

definition connect_websocket :: "main_world \<Rightarrow> main_state \<Rightarrow> main_state \<times> exn option" where
  "connect_websocket w ms =
     (if \<not> is_connected (ws_client ms) then
        (let ms1 = record_call WsConnect ms in
         case connect (token_result w) (open_result w) (ws_client ms1) of
           (ws1, Some e) \<Rightarrow> (ms1\<lparr>ws_client := ws1\<rparr>, Some e)
         | (ws1, None) \<Rightarrow>
            (let ws2 = register_callback ''order_execution'' ''on_order_execution'' ws1;
                 ws3 = subscribe_order_execution ws2
             in (record_call WsSubscribe (ms1\<lparr>ws_client := ws3\<rparr>), None)))
      else (ms, None))"

definition start_trading :: "main_world \<Rightarrow> main_state \<Rightarrow> main_state \<times> exn option" where
  "start_trading w ms =
     (if is_trading_active ms then (ms, None)
      else
        (case initialize_account w (ms\<lparr>is_trading_active := True\<rparr>) of
           (ms1, Some e) \<Rightarrow> (ms1, Some e)
         | (ms1, None) \<Rightarrow>
            (case connect_websocket w ms1 of
               (ms2, Some e) \<Rightarrow> (ms2, Some e)
             | (ms2, None) \<Rightarrow>
                if trading_controller ms2
                then (record_call CreateTradingTask (ms2\<lparr>trading_task := TaskRunning\<rparr>), None)
                else (ms2, None))))"

definition stop_trading :: "main_world \<Rightarrow> main_state \<Rightarrow> main_state \<times> exn option" where
  "stop_trading w ms =
     (if \<not> is_trading_active ms then (ms, None)
      else
        (let ms1 = record_call SellAllPositions (ms\<lparr>is_trading_active := False\<rparr>) in
         case sell_result w of
           Some e \<Rightarrow> (ms1, Some e)
         | None \<Rightarrow>
            if trading_task ms1 = TaskRunning
            then (record_call CancelTradingTask (ms1\<lparr>trading_task := TaskDone\<rparr>), None)
            else (ms1, None)))"

text \<open>One pass of the loop of \<open>monitor_trading_time\<close>, at the wall-clock time \<open>now\<close>.\<close>

definition monitor_iteration :: "main_world \<Rightarrow> datetime \<Rightarrow> main_state \<Rightarrow> main_state \<times> exn option" where
  "monitor_iteration w now ms =
     (case is_trading_time (config ms) now of
        Inl e \<Rightarrow> (ms, Some e)
      | Inr open_now \<Rightarrow>
         if open_now \<and> \<not> is_trading_active ms then
           (if \<not> IS_OVER_NIGHT_MODE (config ms) then
              (let ms1 = record_call SellAllPositions ms in
               case sell_result w of
                 Some e \<Rightarrow> (ms1, Some e)
               | None \<Rightarrow> start_trading w ms1)
            else start_trading w ms)
         else if \<not> open_now \<and> is_trading_active ms then stop_trading w ms
         else (ms, None))"

fun monitor_trading_time :: "main_world \<Rightarrow> datetime list \<Rightarrow> main_state \<Rightarrow> main_state \<times> exn option" where
  "monitor_trading_time w [] ms = (ms, None)"
| "monitor_trading_time w (now # later) ms =
     (case monitor_iteration w now ms of
        (ms1, Some e) \<Rightarrow> (ms1, Some e)
      | (ms1, None) \<Rightarrow> monitor_trading_time w later ms1)"

text \<open>
  The \<open>finally\<close> block of \<open>start\<close>: \<open>stop_trading\<close>, then \<open>disconnect\<close>; an exception of
  the first leaves the second out.
\<close>

definition shutdown :: "main_world \<Rightarrow> main_state \<Rightarrow> main_state \<times> exn option" where
  "shutdown w ms =
     (case stop_trading w ms of
        (ms1, Some e) \<Rightarrow> (ms1, Some e)
      | (ms1, None) \<Rightarrow>
         ((record_call WsDisconnect ms1)\<lparr>ws_client := disconnect (ws_client ms1)\<rparr>, None))"

text \<open>
  \<open>start\<close>: the first check of the clock, then the monitor loop on the later readings.
  The \<open>try\<close> block is left by an exception or, when the readings end, by the interrupt
  of the keyboard (SIGINT), which cancels the running task; the \<open>finally\<close> block runs in
  both cases. The program installs no signal handler: a signal that ends the process
  at once, such as SIGTERM or SIGKILL, runs none of this and is not a run of \<open>start\<close>.
\<close>

definition try_block :: "main_world \<Rightarrow> datetime \<Rightarrow> datetime list \<Rightarrow> main_state \<Rightarrow> main_state" where
  "try_block w now later ms =
     (case is_trading_time (config ms) now of
        Inl e \<Rightarrow> ms
      | Inr open_now \<Rightarrow>
         if open_now then
           (case start_trading w ms of
              (ms1, Some e) \<Rightarrow> ms1
            | (ms1, None) \<Rightarrow> fst (monitor_trading_time w later ms1))
         else fst (monitor_trading_time w later ms))"

definition start :: "main_world \<Rightarrow> datetime \<Rightarrow> datetime list \<Rightarrow> main_state \<Rightarrow> main_state \<times> exn option" where
  "start w now later ms = shutdown w (try_block w now later ms)"

section \<open>Predicates for the properties of the supervisor\<close>

text \<open>
  The live timers of an order number are the handles of the sleeping tasks created for it.
  \<open>timers_wf\<close> is the invariant of the timer map: every sleeping task is the entry of its
  order number, and every entry is a sleeping task of that order number.
\<close>

definition live_timers :: "pkey \<Rightarrow> ws_state \<Rightarrow> nat list" where
  "live_timers k s =
     filter (\<lambda>i. t_status (tasks s ! i) = Sleeping \<and> py_key (t_order_no (tasks s ! i)) = Inr k)
       [0..<length (tasks s)]"

definition timers_wf :: "ws_state \<Rightarrow> bool" where
  "timers_wf s \<longleftrightarrow>
     (\<forall>i < length (tasks s). t_status (tasks s ! i) = Sleeping \<longrightarrow>
        (\<exists>k. py_key (t_order_no (tasks s ! i)) = Inr k \<and> map_of (order_timers s) k = Some i))
   \<and> (\<forall>k i. map_of (order_timers s) k = Some i \<longrightarrow>
        i < length (tasks s) \<and> t_status (tasks s ! i) = Sleeping
        \<and> py_key (t_order_no (tasks s ! i)) = Inr k)"

text \<open>The task list after the cancellation that a Received event performs.\<close>

definition rearm_tasks :: "pkey \<Rightarrow> ws_state \<Rightarrow> timer_task list" where
  "rearm_tasks k s = (case map_of (order_timers s) k of
       Some i \<Rightarrow> tasks (cancel_task i s) | None \<Rightarrow> tasks s)"

text \<open>The timeout notifications written so far for an order number.\<close>

fun is_timeout_for :: "pkey \<Rightarrow> event \<Rightarrow> bool" where
  "is_timeout_for k (LogTimeout n c b) = (py_key n = Inr k)"
| "is_timeout_for k _ = False"

definition timeout_notices :: "pkey \<Rightarrow> ws_state \<Rightarrow> event list" where
  "timeout_notices k s = filter (is_timeout_for k) (trace s)"

text \<open>
  \<open>before T a\<close>: action \<open>a\<close> does not move the clock to \<open>T\<close> or beyond.
  \<open>arms k a\<close>: action \<open>a\<close> hands a Received event for order number \<open>k\<close> to the supervisor.
\<close>

fun before :: "rat \<Rightarrow> action \<Rightarrow> bool" where
  "before T (Advance t) = (t < T)"
| "before T _ = True"

fun arms :: "pkey \<Rightarrow> action \<Rightarrow> bool" where
  "arms k (Deliver d) = (py_eq_str (order_status d) ST_RECEIVED \<and> py_key (order_no d) = Inr k)"
| "arms k _ = False"

text \<open>
  The two phases of a received order that is filled in time: while the clock is below the
  deadline \<open>T\<close> any timer of the order number wakes at \<open>T\<close> or later; after the fill the
  order number has no timer.
\<close>

definition armed_inv :: "rat \<Rightarrow> pkey \<Rightarrow> event list \<Rightarrow> ws_state \<Rightarrow> bool" where
  "armed_inv T k N s \<longleftrightarrow>
     timers_wf s \<and> T \<le> clock s + TIMEOUT_SECONDS \<and> clock s < T
     \<and> (\<forall>i. map_of (order_timers s) k = Some i \<longrightarrow> T \<le> t_wake (tasks s ! i))
     \<and> timeout_notices k s = N"

definition idle_inv :: "pkey \<Rightarrow> event list \<Rightarrow> ws_state \<Rightarrow> bool" where
  "idle_inv k N s \<longleftrightarrow>
     timers_wf s \<and> map_of (order_timers s) k = None \<and> timeout_notices k s = N"

section \<open>Scenario data\<close>

text \<open>Decoded order events of the scenarios: a buy order with its number and its status.\<close>

definition scenario_order :: "string \<Rightarrow> string \<Rightarrow> order_data" where
  "scenario_order oid st =
     \<lparr> order_no = JStr oid, stock_code = JStr ''005930'', stock_name = JStr [],
       order_status = JStr st, buy_sell = SIDE_BUY, action = SIDE_BUY,
       order_qty = 0, exec_qty = 0, exec_price = 0, remain_qty = 0 \<rparr>"

text \<open>The trading window of the claims, 09:01 to 15:30, and collaborators that all succeed.\<close>

definition krx_window :: TradingConfig where
  "krx_window = \<lparr> START_HOUR = 9, START_MINUTE = 1, END_HOUR = 15, END_MINUTE = 30,
                  IS_OVER_NIGHT_MODE = True \<rparr>"

definition calm_world :: main_world where
  "calm_world = \<lparr> balance_result = Inr (Some 500000), token_result = Inr ''token'',
                  open_result = None, sell_result = None \<rparr>"

text \<open>
  A realtime order record whose four numeric fields are empty, blank or not numbers, a
  balance record, callbacks that return and callbacks that raise, and a connected client
  with both callbacks registered.
\<close>

definition scenario_values :: "string \<Rightarrow> string \<Rightarrow> (string \<times> jval) list" where
  "scenario_values oid st =
     [(''9203'', JStr oid), (''9001'', JStr ''005930''), (''913'', JStr st), (''907'', JStr ''2''),
      (''900'', JStr []), (''911'', JStr ''abc''), (''910'', JStr '' ''), (''902'', JStr ''12.5'')]"

definition scenario_fields :: "string \<Rightarrow> string \<Rightarrow> (string \<times> jval) list" where
  "scenario_fields oid st = [(''type'', JStr ''00''), (''values'', JObj (scenario_values oid st))]"

definition scenario_record :: "string \<Rightarrow> string \<Rightarrow> jval" where
  "scenario_record oid st = JObj (scenario_fields oid st)"

definition balance_fields :: "(string \<times> jval) list" where
  "balance_fields = [(''type'', JStr ''05''), (''ord_psbl_cash'', JStr ''1000'')]"

definition quiet_callbacks :: world where
  "quiet_callbacks = \<lparr> run_callback = (\<lambda>h x. None), wall_clock = ''2025-01-02 09:30:00'' \<rparr>"

definition failing_callbacks :: "exn \<Rightarrow> world" where
  "failing_callbacks e = \<lparr> run_callback = (\<lambda>h x. Some e), wall_clock = ''2025-01-02 09:30:00'' \<rparr>"

definition listening_ws :: ws_state where
  "listening_ws =
     (register_callback ''balance_update'' ''on_balance''
        (register_callback ''order_execution'' ''on_order_execution'' (init_ws (Some ''12345678''))))
     \<lparr>websocket := True, is_connected := True\<rparr>"

text \<open>A Saturday morning and a Wednesday morning.\<close>

definition saturday_10am :: datetime where
  "saturday_10am = \<lparr>weekday = 5, hour = 10, minute = 0, second = 0, microsecond = 0\<rparr>"

definition wednesday_10am :: datetime where
  "wednesday_10am = \<lparr>weekday = 2, hour = 10, minute = 0, second = 0, microsecond = 0\<rparr>"

text \<open>
  Frames as they arrive: a heartbeat in compact form, the same heartbeat as \<open>json.dumps\<close>
  writes it, and a realtime frame with one Received order record and one balance record.
\<close>

definition ping_compact :: string where
  "ping_compact = ''{\"trnm\":\"PING\"}''"

definition ping_spaced :: string where
  "ping_spaced = ''{\"trnm\": \"PING\"}''"

definition real_order_fields :: "(string \<times> jval) list" where
  "real_order_fields =
     [(''type'', JStr ''00''),
      (''values'', JObj [(''9203'', JStr ''O1''), (''913'', JStr ST_RECEIVED), (''907'', JStr ''2'')])]"

definition real_order :: order_data where
  "real_order =
     \<lparr> order_no = JStr ''O1'', stock_code = JStr [], stock_name = JStr [],
       order_status = JStr ST_RECEIVED, buy_sell = SIDE_BUY, action = SIDE_BUY,
       order_qty = 0, exec_qty = 0, exec_price = 0, remain_qty = 0 \<rparr>"

definition real_records :: "jval list" where
  "real_records = [JObj real_order_fields, JObj balance_fields]"

definition real_fields :: "(string \<times> jval) list" where
  "real_fields = [(''trnm'', JStr ''REAL''), (''data'', JArr real_records)]"

definition real_frame :: string where
  "real_frame =
     ''{\"trnm\":\"REAL\",\"data\":[{\"type\":\"00\",\"values\":{\"9203\":\"O1\",\"913\":\"''
       @ ST_RECEIVED @
     ''\",\"907\":\"2\"}},{\"type\":\"05\",\"ord_psbl_cash\":\"1000\"}]}''"

text \<open>Collaborators of which the sale of all positions raises.\<close>

definition failing_sale_world :: main_world where
  "failing_sale_world = calm_world\<lparr>sell_result := Some (UserError ''order rejected'')\<rparr>"

definition wednesday_1531 :: datetime where
  "wednesday_1531 = \<lparr>weekday = 2, hour = 15, minute = 31, second = 0, microsecond = 0\<rparr>"

section \<open>Properties of the order timer supervisor\<close>

lemma timers_wfI:
  assumes "\<And>i. i < length (tasks s) \<Longrightarrow> t_status (tasks s ! i) = Sleeping \<Longrightarrow>
        \<exists>k. py_key (t_order_no (tasks s ! i)) = Inr k \<and> map_of (order_timers s) k = Some i"
    and "\<And>k i. map_of (order_timers s) k = Some i \<Longrightarrow>
        i < length (tasks s) \<and> t_status (tasks s ! i) = Sleeping
        \<and> py_key (t_order_no (tasks s ! i)) = Inr k"
  shows "timers_wf s"
  using assms unfolding timers_wf_def by blast

lemma timers_wf_live:
  "timers_wf s \<Longrightarrow> i < length (tasks s) \<Longrightarrow> t_status (tasks s ! i) = Sleeping \<Longrightarrow>
     \<exists>k. py_key (t_order_no (tasks s ! i)) = Inr k \<and> map_of (order_timers s) k = Some i"
  unfolding timers_wf_def by blast

lemma timers_wf_entry:
  "timers_wf s \<Longrightarrow> map_of (order_timers s) k = Some i \<Longrightarrow>
     i < length (tasks s) \<and> t_status (tasks s ! i) = Sleeping
        \<and> py_key (t_order_no (tasks s ! i)) = Inr k"
  unfolding timers_wf_def by blast

lemma timers_wf_init: "timers_wf (init_ws acct)"
  by (simp add: timers_wf_def init_ws_def)

lemma timers_wf_clock: "timers_wf (s\<lparr>clock := t\<rparr>) = timers_wf s"
  by (simp add: timers_wf_def)

lemma timers_wf_emit: "timers_wf (emit e s) = timers_wf s"
  by (simp add: timers_wf_def emit_def)

lemma manage_received_fields:
  assumes "py_eq_str (order_status d) ST_RECEIVED" "py_key (order_no d) = Inr k"
  shows "tasks (fst (manage_order_timer d s)) = rearm_tasks k s @
            [\<lparr> t_order_no = order_no d, t_data = d,
               t_wake = clock s + TIMEOUT_SECONDS, t_status = Sleeping \<rparr>]"
    and "order_timers (fst (manage_order_timer d s)) = AList.update k (length (tasks s)) (order_timers s)"
    and "clock (fst (manage_order_timer d s)) = clock s"
    and "trace (fst (manage_order_timer d s)) = trace s @ [LogTimerStarted (order_no d)]"
    and "snd (manage_order_timer d s) = None"
  using assms
  by (auto simp: manage_order_timer_def emit_def create_timer_task_def cancel_task_def
      rearm_tasks_def Let_def split: option.splits)

lemma rearm_tasks_length: "length (rearm_tasks k s) = length (tasks s)"
  by (simp add: rearm_tasks_def cancel_task_def split: option.splits)

lemma rearm_tasks_nth:
  assumes "timers_wf s" "j < length (tasks s)"
  shows "rearm_tasks k s ! j =
    (if map_of (order_timers s) k = Some j then (tasks s ! j)\<lparr>t_status := Cancelled\<rparr> else tasks s ! j)"
proof (cases "map_of (order_timers s) k")
  case None
  then show ?thesis by (simp add: rearm_tasks_def)
next
  case (Some i)
  with assms(1) have "i < length (tasks s)" "t_status (tasks s ! i) = Sleeping"
    using timers_wf_entry by blast+
  then show ?thesis using Some assms(2)
    by (simp add: rearm_tasks_def cancel_task_def nth_list_update)
qed

lemma manage_received_wf:
  assumes wf: "timers_wf s" and st: "py_eq_str (order_status d) ST_RECEIVED"
  shows "timers_wf (fst (manage_order_timer d s))"
proof (cases "py_key (order_no d)")
  case (Inl e)
  then show ?thesis using wf st by (simp add: manage_order_timer_def timers_wf_emit)
next
  case (Inr k)
  let ?s' = "fst (manage_order_timer d s)"
  let ?n = "length (tasks s)"
  note F = manage_received_fields[OF st Inr, of s]
  have len: "length (tasks ?s') = Suc ?n" by (simp add: F rearm_tasks_length)
  have m: "map_of (order_timers ?s') = (map_of (order_timers s))(k \<mapsto> ?n)"
    by (simp add: F update_conv')
  have old: "tasks ?s' ! j = (if map_of (order_timers s) k = Some j
        then (tasks s ! j)\<lparr>t_status := Cancelled\<rparr> else tasks s ! j)" if "j < ?n" for j
    using that by (simp add: F nth_append rearm_tasks_length rearm_tasks_nth[OF wf])
  have new: "tasks ?s' ! ?n = \<lparr> t_order_no = order_no d, t_data = d,
               t_wake = clock s + TIMEOUT_SECONDS, t_status = Sleeping \<rparr>"
    by (simp add: F nth_append rearm_tasks_length)
  show ?thesis
  proof (rule timers_wfI)
    fix i assume i: "i < length (tasks ?s')" and sl: "t_status (tasks ?s' ! i) = Sleeping"
    show "\<exists>k. py_key (t_order_no (tasks ?s' ! i)) = Inr k \<and> map_of (order_timers ?s') k = Some i"
    proof (cases "i = ?n")
      case True
      then show ?thesis using new Inr m by simp
    next
      case False
      with i len have lt: "i < ?n" by simp
      from sl old[OF lt] have ne: "map_of (order_timers s) k \<noteq> Some i"
        by (auto split: if_splits)
      with sl old[OF lt] have "t_status (tasks s ! i) = Sleeping" by simp
      from timers_wf_live[OF wf lt this] obtain k' where
        k': "py_key (t_order_no (tasks s ! i)) = Inr k'" "map_of (order_timers s) k' = Some i" by blast
      with ne have "k' \<noteq> k" by auto
      then show ?thesis using k' old[OF lt] ne m by auto
    qed
  next
    fix k' i assume e: "map_of (order_timers ?s') k' = Some i"
    show "i < length (tasks ?s') \<and> t_status (tasks ?s' ! i) = Sleeping
        \<and> py_key (t_order_no (tasks ?s' ! i)) = Inr k'"
    proof (cases "k' = k")
      case True
      with e m have "i = ?n" by simp
      then show ?thesis using new len Inr True by simp
    next
      case False
      with e m have e': "map_of (order_timers s) k' = Some i" by simp
      from timers_wf_entry[OF wf e'] have
        i: "i < ?n" "t_status (tasks s ! i) = Sleeping" "py_key (t_order_no (tasks s ! i)) = Inr k'"
        by auto
      have "map_of (order_timers s) k \<noteq> Some i"
      proof
        assume "map_of (order_timers s) k = Some i"
        from timers_wf_entry[OF wf this] i(3) False show False by simp
      qed
      then show ?thesis using old[OF i(1)] i len by simp
    qed
  qed
qed

lemma wf_retire:
  assumes wf: "timers_wf s" and e: "map_of (order_timers s) k = Some i" and st: "st \<noteq> Sleeping"
    and T: "tasks s' = (tasks s)[i := (tasks s ! i)\<lparr>t_status := st\<rparr>]"
    and M: "order_timers s' = AList.delete k (order_timers s)"
  shows "timers_wf s'"
proof (rule timers_wfI)
  from timers_wf_entry[OF wf e] have i: "i < length (tasks s)" "py_key (t_order_no (tasks s ! i)) = Inr k"
    by auto
  have m: "map_of (order_timers s') = (map_of (order_timers s))(k := None)"
    by (simp add: M delete_conv')
  {
    fix j assume j: "j < length (tasks s')" and sl: "t_status (tasks s' ! j) = Sleeping"
    from j T have lt: "j < length (tasks s)" by simp
    from sl T lt st have ne: "j \<noteq> i" by (auto simp: nth_list_update split: if_splits)
    with sl T lt have "t_status (tasks s ! j) = Sleeping" by (simp add: nth_list_update)
    from timers_wf_live[OF wf lt this] obtain k' where
      k': "py_key (t_order_no (tasks s ! j)) = Inr k'" "map_of (order_timers s) k' = Some j" by blast
    with e ne have "k' \<noteq> k" by auto
    then show "\<exists>k. py_key (t_order_no (tasks s' ! j)) = Inr k \<and> map_of (order_timers s') k = Some j"
      using k' T ne lt m by (auto simp: nth_list_update)
  }
  {
    fix k' j assume e': "map_of (order_timers s') k' = Some j"
    with m have kk: "k' \<noteq> k" and e2: "map_of (order_timers s) k' = Some j"
      by (auto split: if_splits)
    from timers_wf_entry[OF wf e2] have
      j: "j < length (tasks s)" "t_status (tasks s ! j) = Sleeping" "py_key (t_order_no (tasks s ! j)) = Inr k'"
      by auto
    with i kk have "j \<noteq> i" by auto
    then show "j < length (tasks s') \<and> t_status (tasks s' ! j) = Sleeping
        \<and> py_key (t_order_no (tasks s' ! j)) = Inr k'"
      using j T by (simp add: nth_list_update)
  }
qed

lemma manage_filled_fields:
  assumes wf: "timers_wf s" and st: "\<not> py_eq_str (order_status d) ST_RECEIVED"
    "py_eq_str (order_status d) ST_FILLED" and k: "py_key (order_no d) = Inr k"
    and e: "map_of (order_timers s) k = Some i"
  shows "tasks (fst (manage_order_timer d s)) = (tasks s)[i := (tasks s ! i)\<lparr>t_status := Cancelled\<rparr>]"
    and "order_timers (fst (manage_order_timer d s)) = AList.delete k (order_timers s)"
    and "clock (fst (manage_order_timer d s)) = clock s"
    and "trace (fst (manage_order_timer d s)) = trace s @ [LogTimerCancelled (order_no d)]"
  using st k e timers_wf_entry[OF wf e]
  by (auto simp: manage_order_timer_def emit_def cancel_task_def Let_def)

lemma manage_filled_none:
  assumes "\<not> py_eq_str (order_status d) ST_RECEIVED" "py_eq_str (order_status d) ST_FILLED"
    and "py_key (order_no d) = Inl e \<or> (py_key (order_no d) = Inr k \<and> map_of (order_timers s) k = None)"
  shows "fst (manage_order_timer d s) = s"
  using assms by (auto simp: manage_order_timer_def)

lemma manage_wf:
  assumes wf: "timers_wf s"
  shows "timers_wf (fst (manage_order_timer d s))"
proof (cases "py_eq_str (order_status d) ST_RECEIVED")
  case True
  then show ?thesis using manage_received_wf[OF wf] by simp
next
  case nr: False
  show ?thesis
  proof (cases "py_eq_str (order_status d) ST_FILLED")
    case False
    with nr wf show ?thesis by (simp add: manage_order_timer_def)
  next
    case fl: True
    show ?thesis
    proof (cases "py_key (order_no d)")
      case (Inl e)
      with manage_filled_none[OF nr fl, of e] wf show ?thesis by simp
    next
      case (Inr k)
      show ?thesis
      proof (cases "map_of (order_timers s) k")
        case None
        with manage_filled_none[OF nr fl, of _ k s] Inr wf show ?thesis by simp
      next
        case (Some i)
        note F = manage_filled_fields[OF wf nr fl Inr Some]
        show ?thesis by (rule wf_retire[OF wf Some _ F(1) F(2)]) simp
      qed
    qed
  qed
qed

lemma order_timeout_fields:
  assumes wf: "timers_wf s" and ot: "order_timeout i s = Some s'"
  shows "\<exists>k. py_key (t_order_no (tasks s ! i)) = Inr k \<and> map_of (order_timers s) k = Some i
      \<and> t_wake (tasks s ! i) \<le> clock s
      \<and> tasks s' = (tasks s)[i := (tasks s ! i)\<lparr>t_status := Finished\<rparr>]
      \<and> order_timers s' = AList.delete k (order_timers s)
      \<and> clock s' = clock s
      \<and> trace s' = trace s @ [LogTimeout (t_order_no (tasks s ! i))
            (stock_code (t_data (tasks s ! i))) (buy_sell (t_data (tasks s ! i)))]"
proof -
  from ot have en: "i < length (tasks s)" "t_status (tasks s ! i) = Sleeping" "t_wake (tasks s ! i) \<le> clock s"
    by (auto simp: order_timeout_def split: if_splits)
  from timers_wf_live[OF wf en(1,2)] obtain k where
    k: "py_key (t_order_no (tasks s ! i)) = Inr k" "map_of (order_timers s) k = Some i" by blast
  with ot en show ?thesis
    by (auto simp: order_timeout_def emit_def Let_def)
qed

lemma order_timeout_wf:
  assumes wf: "timers_wf s" and ot: "order_timeout i s = Some s'"
  shows "timers_wf s'"
proof -
  from order_timeout_fields[OF wf ot] obtain k where
    k: "map_of (order_timers s) k = Some i"
       "tasks s' = (tasks s)[i := (tasks s ! i)\<lparr>t_status := Finished\<rparr>]"
       "order_timers s' = AList.delete k (order_timers s)" by blast
  show ?thesis by (rule wf_retire[OF wf k(1) _ k(2) k(3)]) simp
qed

lemma step_wf:
  assumes "timers_wf s" "step a s = Some s'"
  shows "timers_wf s'"
  using assms
  by (cases a) (auto simp: timers_wf_clock manage_wf order_timeout_wf split: if_splits)

lemma run_wf:
  "timers_wf s \<Longrightarrow> run as s = Some s' \<Longrightarrow> timers_wf s'"
proof (induction as arbitrary: s)
  case Nil
  then show ?case by simp
next
  case (Cons a as)
  then show ?case by (auto split: option.splits dest: step_wf)
qed

lemma filter_eq_upt: "filter (\<lambda>j. j = i) [0..<n] = (if i < n then [i] else [])"
  by (induction n) auto

lemma live_timers_wf:
  assumes wf: "timers_wf s"
  shows "live_timers k s = (case map_of (order_timers s) k of None \<Rightarrow> [] | Some i \<Rightarrow> [i])"
proof (cases "map_of (order_timers s) k")
  case None
  have "\<not> (t_status (tasks s ! i) = Sleeping \<and> py_key (t_order_no (tasks s ! i)) = Inr k)"
    if "i < length (tasks s)" for i
    using timers_wf_live[OF wf that] None by auto
  then have "live_timers k s = []" by (auto simp: live_timers_def filter_empty_conv)
  with None show ?thesis by simp
next
  case (Some i)
  from timers_wf_entry[OF wf Some] have i: "i < length (tasks s)" "t_status (tasks s ! i) = Sleeping"
    "py_key (t_order_no (tasks s ! i)) = Inr k" by auto
  have "(t_status (tasks s ! j) = Sleeping \<and> py_key (t_order_no (tasks s ! j)) = Inr k) = (j = i)"
    if "j < length (tasks s)" for j
    using timers_wf_live[OF wf that] Some i by auto
  then have "live_timers k s = filter (\<lambda>j. j = i) [0..<length (tasks s)]"
    unfolding live_timers_def by (intro filter_cong) auto
  with i(1) Some show ?thesis by (simp add: filter_eq_upt)
qed

lemma manage_effect:
  fixes d :: order_data
  assumes wf: "timers_wf s"
  defines "s' \<equiv> fst (manage_order_timer d s)"
  shows "timeout_notices k s' = timeout_notices k s"
    and "clock s' = clock s"
    and "map_of (order_timers s') k = Some i \<Longrightarrow>
           (map_of (order_timers s) k = Some i \<and> t_wake (tasks s' ! i) = t_wake (tasks s ! i))
         \<or> (arms k (Deliver d) \<and> t_wake (tasks s' ! i) = clock s + TIMEOUT_SECONDS)"
    and "map_of (order_timers s) k = None \<Longrightarrow> \<not> arms k (Deliver d) \<Longrightarrow>
           map_of (order_timers s') k = None"
proof -
  consider (recv) k' where "py_eq_str (order_status d) ST_RECEIVED" "py_key (order_no d) = Inr k'"
    | (recv_bad) e where "py_eq_str (order_status d) ST_RECEIVED" "py_key (order_no d) = Inl e"
    | (fill) k' j where "\<not> py_eq_str (order_status d) ST_RECEIVED" "py_eq_str (order_status d) ST_FILLED"
        "py_key (order_no d) = Inr k'" "map_of (order_timers s) k' = Some j"
    | (same) "s' = s"
  proof (cases "py_eq_str (order_status d) ST_RECEIVED")
    case True
    then show ?thesis using recv recv_bad by (cases "py_key (order_no d)") auto
  next
    case nr: False
    show ?thesis
    proof (cases "py_eq_str (order_status d) ST_FILLED")
      case False
      with nr have "s' = s" by (simp add: s'_def manage_order_timer_def)
      then show ?thesis by (rule same)
    next
      case fl: True
      show ?thesis
      proof (cases "py_key (order_no d)")
        case (Inl e)
        with manage_filled_none[OF nr fl, of e] show ?thesis using same s'_def by simp
      next
        case (Inr k')
        show ?thesis
        proof (cases "map_of (order_timers s) k'")
          case None
          with manage_filled_none[OF nr fl, of _ k' s] Inr show ?thesis using same s'_def by simp
        next
          case (Some j)
          then show ?thesis using fill nr fl Inr by blast
        qed
      qed
    qed
  qed
  then have "timeout_notices k s' = timeout_notices k s \<and> clock s' = clock s
    \<and> (map_of (order_timers s') k = Some i \<longrightarrow>
           (map_of (order_timers s) k = Some i \<and> t_wake (tasks s' ! i) = t_wake (tasks s ! i))
         \<or> (arms k (Deliver d) \<and> t_wake (tasks s' ! i) = clock s + TIMEOUT_SECONDS))
    \<and> (map_of (order_timers s) k = None \<longrightarrow> \<not> arms k (Deliver d) \<longrightarrow>
           map_of (order_timers s') k = None)"
  proof cases
    case recv
    note F = manage_received_fields[OF recv, of s, folded s'_def]
    have m: "map_of (order_timers s') = (map_of (order_timers s))(k' \<mapsto> length (tasks s))"
      by (simp add: F update_conv')
    have a: "timeout_notices k s' = timeout_notices k s" "clock s' = clock s"
      by (simp_all add: timeout_notices_def F)
    have b: "(map_of (order_timers s) k = Some i \<and> t_wake (tasks s' ! i) = t_wake (tasks s ! i))
         \<or> (arms k (Deliver d) \<and> t_wake (tasks s' ! i) = clock s + TIMEOUT_SECONDS)"
      if e: "map_of (order_timers s') k = Some i"
    proof (cases "k = k'")
      case True
      with e m have "i = length (tasks s)" by simp
      then show ?thesis using True recv by (simp add: F nth_append rearm_tasks_length)
    next
      case False
      with e m have e': "map_of (order_timers s) k = Some i" by simp
      from timers_wf_entry[OF wf e'] have "i < length (tasks s)" by simp
      then show ?thesis using e'
        by (simp add: F nth_append rearm_tasks_length rearm_tasks_nth[OF wf])
    qed
    have c: "map_of (order_timers s') k = None"
      if "map_of (order_timers s) k = None" "\<not> arms k (Deliver d)"
      using that recv m by auto
    from a b c show ?thesis by blast
  next
    case recv_bad
    then have "s' = emit (LogTimerStarted (order_no d)) s"
      by (simp add: s'_def manage_order_timer_def)
    then show ?thesis by (simp add: emit_def timeout_notices_def)
  next
    case fill
    note F = manage_filled_fields[OF wf fill, folded s'_def]
    have m: "map_of (order_timers s') = (map_of (order_timers s))(k' := None)"
      by (simp add: F delete_conv')
    have a: "timeout_notices k s' = timeout_notices k s" "clock s' = clock s"
      by (simp_all add: timeout_notices_def F)
    have b: "map_of (order_timers s) k = Some i \<and> t_wake (tasks s' ! i) = t_wake (tasks s ! i)"
      if e: "map_of (order_timers s') k = Some i"
    proof -
      from e m have e': "map_of (order_timers s) k = Some i" by (auto split: if_splits)
      from timers_wf_entry[OF wf e'] have "i < length (tasks s)" by simp
      then show ?thesis using e' by (cases "i = j") (simp_all add: F)
    qed
    have c: "map_of (order_timers s') k = None" if "map_of (order_timers s) k = None"
      using that m by simp
    from a b c show ?thesis by blast
  next
    case same
    then show ?thesis by simp
  qed
  then show "timeout_notices k s' = timeout_notices k s"
    and "clock s' = clock s"
    and "map_of (order_timers s') k = Some i \<Longrightarrow>
           (map_of (order_timers s) k = Some i \<and> t_wake (tasks s' ! i) = t_wake (tasks s ! i))
         \<or> (arms k (Deliver d) \<and> t_wake (tasks s' ! i) = clock s + TIMEOUT_SECONDS)"
    and "map_of (order_timers s) k = None \<Longrightarrow> \<not> arms k (Deliver d) \<Longrightarrow>
           map_of (order_timers s') k = None"
    by blast+
qed

lemma timeout_effect:
  assumes wf: "timers_wf s" and ot: "order_timeout i s = Some s'"
  shows "clock s' = clock s"
    and "\<exists>k'. map_of (order_timers s) k' = Some i \<and> t_wake (tasks s ! i) \<le> clock s
          \<and> (k' \<noteq> k \<longrightarrow> timeout_notices k s' = timeout_notices k s)"
    and "map_of (order_timers s') k = Some j \<Longrightarrow>
           map_of (order_timers s) k = Some j \<and> t_wake (tasks s' ! j) = t_wake (tasks s ! j)"
    and "map_of (order_timers s) k = None \<Longrightarrow> map_of (order_timers s') k = None"
proof -
  from order_timeout_fields[OF wf ot] obtain k' where
    F: "py_key (t_order_no (tasks s ! i)) = Inr k'" "map_of (order_timers s) k' = Some i"
       "t_wake (tasks s ! i) \<le> clock s"
       "tasks s' = (tasks s)[i := (tasks s ! i)\<lparr>t_status := Finished\<rparr>]"
       "order_timers s' = AList.delete k' (order_timers s)"
       "clock s' = clock s"
       "trace s' = trace s @ [LogTimeout (t_order_no (tasks s ! i))
            (stock_code (t_data (tasks s ! i))) (buy_sell (t_data (tasks s ! i)))]"
    by blast
  have m: "map_of (order_timers s') = (map_of (order_timers s))(k' := None)"
    by (simp add: F delete_conv')
  show "clock s' = clock s" by (rule F)
  show "\<exists>k'. map_of (order_timers s) k' = Some i \<and> t_wake (tasks s ! i) \<le> clock s
          \<and> (k' \<noteq> k \<longrightarrow> timeout_notices k s' = timeout_notices k s)"
    using F by (intro exI[of _ k']) (auto simp: timeout_notices_def)
  show "map_of (order_timers s') k = Some j \<Longrightarrow>
           map_of (order_timers s) k = Some j \<and> t_wake (tasks s' ! j) = t_wake (tasks s ! j)"
  proof -
    assume e: "map_of (order_timers s') k = Some j"
    with m have e': "map_of (order_timers s) k = Some j" by (auto split: if_splits)
    from timers_wf_entry[OF wf e'] have "j < length (tasks s)" by simp
    then show ?thesis using e' by (cases "i = j") (simp_all add: F)
  qed
  show "map_of (order_timers s) k = None \<Longrightarrow> map_of (order_timers s') k = None"
    using m by simp
qed

lemma armed_step:
  assumes inv: "armed_inv T k N s" and b: "before T a" and st: "step a s = Some s'"
  shows "armed_inv T k N s'"
proof -
  from inv have wf: "timers_wf s" and c1: "T \<le> clock s + TIMEOUT_SECONDS" and c2: "clock s < T"
    and w: "\<And>i. map_of (order_timers s) k = Some i \<Longrightarrow> T \<le> t_wake (tasks s ! i)"
    and n: "timeout_notices k s = N"
    by (auto simp: armed_inv_def)
  have wf': "timers_wf s'" by (rule step_wf[OF wf st])
  show ?thesis
  proof (cases a)
    case (Advance t)
    with st have "clock s \<le> t" "s' = s\<lparr>clock := t\<rparr>" by (auto split: if_splits)
    with inv b Advance show ?thesis
      by (auto simp: armed_inv_def timers_wf_clock timeout_notices_def)
  next
    case (Expire i)
    with st have ot: "order_timeout i s = Some s'" by simp
    note E = timeout_effect[OF wf ot]
    from E(2)[where k=k] obtain k' where k': "map_of (order_timers s) k' = Some i" "t_wake (tasks s ! i) \<le> clock s"
      "k' \<noteq> k \<longrightarrow> timeout_notices k s' = timeout_notices k s" by blast
    have "k' \<noteq> k"
    proof
      assume "k' = k"
      with k' w[of i] c2 show False by simp
    qed
    with k' have "timeout_notices k s' = N" using n by simp
    moreover have "T \<le> t_wake (tasks s' ! j)" if "map_of (order_timers s') k = Some j" for j
      using E(3)[where k=k, OF that] w[of j] by simp
    ultimately show ?thesis using wf' c1 c2 E(1) by (simp add: armed_inv_def)
  next
    case (Deliver d)
    with st have s': "s' = fst (manage_order_timer d s)" by simp
    note M = manage_effect[OF wf, where d=d, folded s']
    have "T \<le> t_wake (tasks s' ! j)" if "map_of (order_timers s') k = Some j" for j
      using M(3)[where k=k, OF that] w[of j] c1 by auto
    then show ?thesis using wf' c1 c2 M(1)[where k=k] M(2) n by (simp add: armed_inv_def)
  qed
qed

lemma armed_run:
  "armed_inv T k N s \<Longrightarrow> list_all (before T) as \<Longrightarrow> run as s = Some s' \<Longrightarrow> armed_inv T k N s'"
proof (induction as arbitrary: s)
  case Nil
  then show ?case by simp
next
  case (Cons a as)
  from Cons.prems(3) obtain s1 where s1: "step a s = Some s1" "run as s1 = Some s'"
    by (auto split: option.splits)
  from Cons.prems(2) have b: "before T a" "list_all (before T) as" by simp_all
  from armed_step[OF Cons.prems(1) b(1) s1(1)] Cons.IH b(2) s1(2) show ?case by blast
qed

lemma idle_step:
  assumes inv: "idle_inv k N s" and b: "\<not> arms k a" and st: "step a s = Some s'"
  shows "idle_inv k N s'"
proof -
  from inv have wf: "timers_wf s" and m: "map_of (order_timers s) k = None"
    and n: "timeout_notices k s = N"
    by (auto simp: idle_inv_def)
  have wf': "timers_wf s'" by (rule step_wf[OF wf st])
  show ?thesis
  proof (cases a)
    case (Advance t)
    with st have "s' = s\<lparr>clock := t\<rparr>" by (auto split: if_splits)
    with inv show ?thesis
      by (auto simp: idle_inv_def timers_wf_clock timeout_notices_def)
  next
    case (Expire i)
    with st have ot: "order_timeout i s = Some s'" by simp
    note E = timeout_effect[OF wf ot]
    from E(2)[where k=k] m have "timeout_notices k s' = timeout_notices k s" by auto
    then show ?thesis using wf' E(4)[where k=k, OF m] n by (simp add: idle_inv_def)
  next
    case (Deliver d)
    with st have s': "s' = fst (manage_order_timer d s)" by simp
    note M = manage_effect[OF wf, where d=d, folded s']
    from M(4)[where k=k, OF m] b Deliver have "map_of (order_timers s') k = None" by simp
    then show ?thesis using wf' M(1)[where k=k] n by (simp add: idle_inv_def)
  qed
qed

lemma idle_run:
  "idle_inv k N s \<Longrightarrow> list_all (\<lambda>a. \<not> arms k a) as \<Longrightarrow> run as s = Some s' \<Longrightarrow> idle_inv k N s'"
proof (induction as arbitrary: s)
  case Nil
  then show ?case by simp
next
  case (Cons a as)
  from Cons.prems(3) obtain s1 where s1: "step a s = Some s1" "run as s1 = Some s'"
    by (auto split: option.splits)
  from Cons.prems(2) have b: "\<not> arms k a" "list_all (\<lambda>a. \<not> arms k a) as" by simp_all
  from idle_step[OF Cons.prems(1) b(1) s1(1)] Cons.IH b(2) s1(2) show ?case by blast
qed

lemma run_append:
  "run (as @ bs) s = (case run as s of None \<Rightarrow> None | Some s1 \<Rightarrow> run bs s1)"
  by (induction as arbitrary: s) (auto split: option.splits)

lemma armed_after_received:
  assumes wf: "timers_wf s" and st: "py_eq_str (order_status d) ST_RECEIVED"
    and k: "py_key (order_no d) = Inr k"
  shows "armed_inv (clock s + TIMEOUT_SECONDS) k (timeout_notices k s) (fst (manage_order_timer d s))"
proof -
  let ?s' = "fst (manage_order_timer d s)"
  note F = manage_received_fields[OF st k, of s]
  have "map_of (order_timers ?s') k = Some (length (tasks s))" by (simp add: F update_conv')
  moreover have "t_wake (tasks ?s' ! length (tasks s)) = clock s + TIMEOUT_SECONDS"
    by (simp add: F nth_append rearm_tasks_length)
  ultimately show ?thesis
    using manage_wf[OF wf, of d] F(3,4)
    by (simp add: armed_inv_def timeout_notices_def TIMEOUT_SECONDS_def)
qed

lemma idle_after_filled:
  assumes inv: "armed_inv T k N s" and st: "py_eq_str (order_status d) ST_FILLED"
    and k: "py_key (order_no d) = Inr k"
  shows "idle_inv k N (fst (manage_order_timer d s))"
proof -
  let ?s' = "fst (manage_order_timer d s)"
  from inv have wf: "timers_wf s" and n: "timeout_notices k s = N" by (auto simp: armed_inv_def)
  have nr: "\<not> py_eq_str (order_status d) ST_RECEIVED"
    using st by (cases "order_status d") (auto simp: ST_RECEIVED_def ST_FILLED_def)
  have "map_of (order_timers ?s') k = None"
  proof (cases "map_of (order_timers s) k")
    case None
    with manage_filled_none[OF nr st, of _ k s] k show ?thesis by simp
  next
    case (Some i)
    from manage_filled_fields(2)[OF wf nr st k Some] show ?thesis by (simp add: delete_conv')
  qed
  then show ?thesis
    using manage_wf[OF wf, of d] manage_effect(1)[OF wf, where d=d and k=k] n by (simp add: idle_inv_def)
qed

text \<open>
  Claim C1. Take any state reached from the initial one, and let a Received event for an
  order number arrive there. If a Filled event for the same order number is handed to the
  supervisor while the clock is still below the arrival time plus the five minutes
  (whatever other events, fills, re-arms and expiries of other timers happen in between),
  then no timeout notification for that order number is written, neither up to the fill
  nor later, for as long as no new Received event for it arrives; and the timer map holds
  no entry for the order number at the end.
\<close>

theorem fill_before_timeout_no_notice:
  assumes pre: "run pre (init_ws acct) = Some s0"
    and r: "py_eq_str (order_status d1) ST_RECEIVED" "py_key (order_no d1) = Inr k"
    and f: "py_eq_str (order_status d2) ST_FILLED" "py_key (order_no d2) = Inr k"
    and mid: "list_all (before (clock s0 + TIMEOUT_SECONDS)) mid"
    and post: "list_all (\<lambda>a. \<not> arms k a) post"
    and run: "run (Deliver d1 # mid @ Deliver d2 # post) s0 = Some s1"
  shows "timeout_notices k s1 = timeout_notices k s0 \<and> map_of (order_timers s1) k = None"
proof -
  have wf0: "timers_wf s0" by (rule run_wf[OF timers_wf_init pre])
  let ?a = "fst (manage_order_timer d1 s0)"
  from run have "run (mid @ Deliver d2 # post) ?a = Some s1" by simp
  then obtain s2 where s2: "run mid ?a = Some s2" "run (Deliver d2 # post) s2 = Some s1"
    by (auto simp: run_append split: option.splits)
  from armed_run[OF armed_after_received[OF wf0 r] mid s2(1)]
  have A: "armed_inv (clock s0 + TIMEOUT_SECONDS) k (timeout_notices k s0) s2" .
  from s2(2) have "run post (fst (manage_order_timer d2 s2)) = Some s1" by simp
  from idle_run[OF idle_after_filled[OF A f] post this]
  show ?thesis by (simp add: idle_inv_def)
qed

text \<open>
  Claim C2. In every reachable state the sleeping timer tasks of an order number are
  exactly the entry of the timer map, so there is at most one. A Received event for an
  order number whose timer \<open>i\<close> is live cancels task \<open>i\<close> and leaves one live timer, the new
  task, and its deadline is the clock at this second event plus the five minutes.
\<close>

theorem one_live_timer_per_order:
  assumes reach: "run as (init_ws acct) = Some s"
  shows "length (live_timers k s) \<le> 1 \<and>
     (py_eq_str (order_status d) ST_RECEIVED \<longrightarrow> py_key (order_no d) = Inr k \<longrightarrow>
      map_of (order_timers s) k = Some i \<longrightarrow>
        live_timers k s = [i] \<and>
        t_status (tasks (fst (manage_order_timer d s)) ! i) = Cancelled \<and>
        live_timers k (fst (manage_order_timer d s)) = [length (tasks s)] \<and>
        t_wake (tasks (fst (manage_order_timer d s)) ! length (tasks s)) = clock s + TIMEOUT_SECONDS)"
proof -
  have wf: "timers_wf s" by (rule run_wf[OF timers_wf_init reach])
  have one: "length (live_timers k s) \<le> 1"
    by (simp add: live_timers_wf[OF wf] split: option.splits)
  have re: "live_timers k s = [i] \<and>
        t_status (tasks (fst (manage_order_timer d s)) ! i) = Cancelled \<and>
        live_timers k (fst (manage_order_timer d s)) = [length (tasks s)] \<and>
        t_wake (tasks (fst (manage_order_timer d s)) ! length (tasks s)) = clock s + TIMEOUT_SECONDS"
    if st: "py_eq_str (order_status d) ST_RECEIVED" and k: "py_key (order_no d) = Inr k"
      and e: "map_of (order_timers s) k = Some i"
  proof -
    let ?s' = "fst (manage_order_timer d s)"
    note F = manage_received_fields[OF st k, of s]
    have wf': "timers_wf ?s'" by (rule manage_wf[OF wf])
    from timers_wf_entry[OF wf e] have i: "i < length (tasks s)" by simp
    have "map_of (order_timers ?s') k = Some (length (tasks s))" by (simp add: F update_conv')
    then have "live_timers k ?s' = [length (tasks s)]" by (simp add: live_timers_wf[OF wf'])
    moreover have "t_status (tasks ?s' ! i) = Cancelled"
      using i e by (simp add: F nth_append rearm_tasks_length rearm_tasks_nth[OF wf])
    moreover have "t_wake (tasks ?s' ! length (tasks s)) = clock s + TIMEOUT_SECONDS"
      by (simp add: F nth_append rearm_tasks_length)
    moreover have "live_timers k s = [i]" using e by (simp add: live_timers_wf[OF wf])
    ultimately show ?thesis by simp
  qed
  from one re show ?thesis by blast
qed

theorem fill_before_timeout_no_notice_witness:
  "\<exists>s1. run (Deliver (scenario_order ''O1'' ST_RECEIVED) # [Advance 240] @
           Deliver (scenario_order ''O1'' ST_FILLED) # [Advance 1000]) (init_ws None) = Some s1
     \<and> timeout_notices (KStr ''O1'') s1 = timeout_notices (KStr ''O1'') (init_ws None)
     \<and> map_of (order_timers s1) (KStr ''O1'') = None"
proof -
  let ?r = "scenario_order ''O1'' ST_RECEIVED" and ?f = "scenario_order ''O1'' ST_FILLED"
  have pre: "run [] (init_ws None) = Some (init_ws None)" by simp
  have r: "py_eq_str (order_status ?r) ST_RECEIVED" "py_key (order_no ?r) = Inr (KStr ''O1'')"
    by (simp_all add: scenario_order_def)
  have f: "py_eq_str (order_status ?f) ST_FILLED" "py_key (order_no ?f) = Inr (KStr ''O1'')"
    by (simp_all add: scenario_order_def)
  have mid: "list_all (before (clock (init_ws None) + TIMEOUT_SECONDS)) [Advance 240]"
    by (simp add: init_ws_def TIMEOUT_SECONDS_def)
  have post: "list_all (\<lambda>a. \<not> arms (KStr ''O1'') a) [Advance 1000]" by simp
  have "run (Deliver ?r # [Advance 240] @ Deliver ?f # [Advance 1000]) (init_ws None) \<noteq> None"
    by code_simp
  then obtain s1 where run: "run (Deliver ?r # [Advance 240] @ Deliver ?f # [Advance 1000]) (init_ws None) = Some s1"
    by blast
  from fill_before_timeout_no_notice[OF pre r f mid post run] run show ?thesis by blast
qed

theorem one_live_timer_per_order_witness:
  "\<exists>s. run [Deliver (scenario_order ''O1'' ST_RECEIVED), Advance 100] (init_ws None) = Some s
     \<and> py_eq_str (order_status (scenario_order ''O1'' ST_RECEIVED)) ST_RECEIVED
     \<and> py_key (order_no (scenario_order ''O1'' ST_RECEIVED)) = Inr (KStr ''O1'')
     \<and> map_of (order_timers s) (KStr ''O1'') = Some 0
     \<and> length (live_timers (KStr ''O1'') s) \<le> 1
     \<and> live_timers (KStr ''O1'') s = [0]
     \<and> t_status (tasks (fst (manage_order_timer (scenario_order ''O1'' ST_RECEIVED) s)) ! 0) = Cancelled
     \<and> live_timers (KStr ''O1'') (fst (manage_order_timer (scenario_order ''O1'' ST_RECEIVED) s)) = [1]
     \<and> t_wake (tasks (fst (manage_order_timer (scenario_order ''O1'' ST_RECEIVED) s)) ! 1) = 400"
proof -
  let ?r = "scenario_order ''O1'' ST_RECEIVED"
  let ?s = "the (run [Deliver ?r, Advance 100] (init_ws None))"
  have run: "run [Deliver ?r, Advance 100] (init_ws None) = Some ?s" by code_simp
  have r: "py_eq_str (order_status ?r) ST_RECEIVED" "py_key (order_no ?r) = Inr (KStr ''O1'')"
    by (simp_all add: scenario_order_def)
  have e: "map_of (order_timers ?s) (KStr ''O1'') = Some 0" by code_simp
  have n: "length (tasks ?s) = 1" "clock ?s + TIMEOUT_SECONDS = 400" by code_simp+
  from one_live_timer_per_order[OF run, of "KStr ''O1''" ?r 0] r e n run
  show ?thesis by (intro exI[of _ ?s]) simp
qed

text \<open>
  Claim C3. An order event whose status is neither the Received literal nor the fill
  literal leaves the whole state of the object as it was: no timer is armed, none is
  cancelled, the timer map is unchanged, and nothing is raised.
\<close>

theorem unknown_status_keeps_timers:
  assumes "\<not> py_eq_str (order_status d) ST_RECEIVED" and "\<not> py_eq_str (order_status d) ST_FILLED"
  shows "manage_order_timer d s = (s, None)"
  using assms by (simp add: manage_order_timer_def)

theorem unknown_status_keeps_timers_witness:
  "\<not> py_eq_str (order_status (scenario_order ''O1'' ''cancelled'')) ST_RECEIVED
   \<and> \<not> py_eq_str (order_status (scenario_order ''O1'' ''cancelled'')) ST_FILLED
   \<and> order_timers (fst (manage_order_timer (scenario_order ''O1'' ST_RECEIVED) (init_ws None))) = [(KStr ''O1'', 0)]
   \<and> manage_order_timer (scenario_order ''O1'' ''cancelled'')
        (fst (manage_order_timer (scenario_order ''O1'' ST_RECEIVED) (init_ws None)))
      = (fst (manage_order_timer (scenario_order ''O1'' ST_RECEIVED) (init_ws None)), None)"
proof -
  have a: "\<not> py_eq_str (order_status (scenario_order ''O1'' ''cancelled'')) ST_RECEIVED"
    "\<not> py_eq_str (order_status (scenario_order ''O1'' ''cancelled'')) ST_FILLED"
    by (simp_all add: scenario_order_def ST_RECEIVED_def ST_FILLED_def)
  have b: "order_timers (fst (manage_order_timer (scenario_order ''O1'' ST_RECEIVED) (init_ws None))) = [(KStr ''O1'', 0)]"
    by code_simp
  from unknown_status_keeps_timers[OF a] a b show ?thesis by simp
qed

section \<open>Properties of the decoder and of the router\<close>

text \<open>
  The same on the wire: a record whose status field 913 is none of the three literals that
  the code knows (the accepted one, which is decoded to the Received literal, the
  Received literal itself and the fill literal) decodes with that status unchanged, and
  the supervisor leaves the state as it was.
\<close>

lemma unknown_wire_status_keeps_timers:
  assumes rec: "dict_of data = Inr d"
    and vals: "dict_of (py_get d ''values'' (JObj [])) = Inr values"
    and st: "\<not> py_eq_str (py_get values ''913'' (JStr [])) ST_ORDER"
      "\<not> py_eq_str (py_get values ''913'' (JStr [])) ST_RECEIVED"
      "\<not> py_eq_str (py_get values ''913'' (JStr [])) ST_FILLED"
  shows "\<exists>p. parse_order_execution data = Inr p
           \<and> order_status p = py_get values ''913'' (JStr [])
           \<and> manage_order_timer p s = (s, None)"
proof -
  have "\<not> py_eq_str (py_get values ''913'' (JStr ''0'')) ST_ORDER"
    using st(1) by (auto simp: py_get_def ST_ORDER_def split: option.splits)
  with rec vals st show ?thesis
    by (simp add: parse_order_execution_def Let_def manage_order_timer_def)
qed

text \<open>The supervisor only adds to the trace.\<close>

lemma manage_trace_extends:
  "\<exists>es. trace (fst (manage_order_timer p s)) = trace s @ es"
  by (auto simp: manage_order_timer_def Let_def create_timer_task_def emit_def cancel_task_def
      split: option.splits sum.splits prod.splits)

text \<open>
  \<open>safe_int\<close> on text outside ASCII and on the separators 28 to 31: digits of other
  scripts count (fullwidth 12, Arabic-Indic 123), a no-break space or an em space
  around digits is dropped, a file separator before digits makes the text not a
  number, Hangul text is not a number.
\<close>

lemma safe_int_samples:
  "safe_int (JStr [CHR 0xEF, CHR 0xBC, CHR 0x91, CHR 0xEF, CHR 0xBC, CHR 0x92]) = 12"
  "safe_int (JStr [CHR 0xD9, CHR 0xA1, CHR 0xD9, CHR 0xA2, CHR 0xD9, CHR 0xA3]) = 123"
  "safe_int (JStr [CHR 0xC2, CHR 0xA0, CHR ''7'']) = 7"
  "safe_int (JStr [CHR 0xE2, CHR 0x80, CHR 0x83, CHR ''4'', CHR ''2'']) = 42"
  "safe_int (JStr [CHR 0x1C, CHR ''1'', CHR ''2'']) = 0"
  "safe_int (JStr [CHR 0x1F, CHR ''7'', CHR 0x1E]) = 0"
  "safe_int (JStr ST_RECEIVED) = 0"
  "safe_int (JStr '' -1_000 '') = - 1000"
  by code_simp+

lemma safe_int_non_numeric:
  assumes "t = [] \<or> py_int t = None"
  shows "safe_int (JStr t) = 0"
  using assms by (auto simp: safe_int_def)

lemma manage_hashable_no_raise:
  assumes "py_key (order_no p) = Inr k"
  shows "snd (manage_order_timer p s) = None"
  using assms
  by (auto simp: manage_order_timer_def Let_def create_timer_task_def split: option.splits prod.splits)

text \<open>
  Claim C4. For a wire order record whose four numeric fields (ordered quantity 900,
  executed quantity 911, executed price 910, remaining quantity 902) are empty strings
  or text that \<open>int()\<close> rejects (any text, ASCII or not, that is not a number for
  \<open>int()\<close>), decoding raises nothing and gives 0 for each of them.
  The record then goes on through the router: when its order number is hashable and the
  callback returns, the router raises nothing and the records after it are processed.
\<close>

theorem numeric_fields_default_to_zero:
  assumes rec: "dict_of data = Inr d"
    and vals: "dict_of (py_get d ''values'' (JObj [])) = Inr values"
    and bad: "\<forall>f \<in> set [''900'', ''911'', ''910'', ''902''].
                \<exists>t. map_of values f = Some (JStr t) \<and> (t = [] \<or> py_int t = None)"
  shows "\<exists>p. parse_order_execution data = Inr p
             \<and> order_qty p = 0 \<and> exec_qty p = 0 \<and> exec_price p = 0 \<and> remain_qty p = 0
             \<and> ((py_eq_str (py_get d ''type'' JNull) ''04'' \<or> py_eq_str (py_get d ''type'' JNull) ''00'')
                  \<longrightarrow> (\<exists>k. py_key (order_no p) = Inr k)
                  \<longrightarrow> (\<forall>h x. run_callback w h x = None)
                  \<longrightarrow> snd (handle_record w data s) = None
                      \<and> handle_records w (data # rest) s
                          = handle_records w rest (fst (handle_record w data s)))"
proof -
  from bad have z: "safe_int (py_get values ''900'' (JStr ''0'')) = 0"
      "safe_int (py_get values ''911'' (JStr ''0'')) = 0"
      "safe_int (py_get values ''910'' (JStr ''0'')) = 0"
      "safe_int (py_get values ''902'' (JStr ''0'')) = 0"
    by (auto simp: py_get_def safe_int_non_numeric)
  from rec vals obtain p where p: "parse_order_execution data = Inr p"
    by (simp add: parse_order_execution_def Let_def)
  with rec vals z have f: "order_qty p = 0" "exec_qty p = 0" "exec_price p = 0" "remain_qty p = 0"
    by (auto simp: parse_order_execution_def Let_def)
  have g: "snd (handle_record w data s) = None
        \<and> handle_records w (data # rest) s = handle_records w rest (fst (handle_record w data s))"
    if ty: "py_eq_str (py_get d ''type'' JNull) ''04'' \<or> py_eq_str (py_get d ''type'' JNull) ''00''"
      and k: "\<exists>k. py_key (order_no p) = Inr k" and q: "\<forall>h x. run_callback w h x = None"
  proof -
    from k obtain k' where "py_key (order_no p) = Inr k'" by blast
    from manage_hashable_no_raise[OF this, of s] obtain s1 where m: "manage_order_timer p s = (s1, None)"
      by (cases "manage_order_timer p s") auto
    have "snd (handle_record w data s) = None"
      using rec ty p m q by (auto simp: handle_record_def invoke_callback_def Let_def split: option.splits)
    then show ?thesis by (cases "handle_record w data s") auto
  qed
  from p f g show ?thesis by blast
qed

text \<open>
  Claim C9. For a record of type 04 or 00 that decodes to \<open>p\<close>, the router first runs the
  timer supervisor on \<open>p\<close>; only in the state that the supervisor leaves, and only if it
  raised nothing, the callback registered for order events is called (its call is the
  last entry of the trace). For a record of type 05 only the callback registered for
  balance updates is called, and the timer map and the timer tasks are unchanged.
\<close>

theorem router_order_then_handler:
  assumes rec: "dict_of data = Inr d"
  shows "((py_eq_str (py_get d ''type'' JNull) ''04'' \<or> py_eq_str (py_get d ''type'' JNull) ''00'')
           \<longrightarrow> parse_order_execution data = Inr p
           \<longrightarrow> handle_record w data s =
                 (case manage_order_timer p s of
                    (s1, Some e) \<Rightarrow> (s1, Some e)
                  | (s1, None) \<Rightarrow>
                     (case map_of (callbacks s) ''order_execution'' of
                        None \<Rightarrow> (s1, None)
                      | Some h \<Rightarrow> (s1\<lparr>trace := trace s1 @ [Called h (OrderPayload p)]\<rparr>,
                                   run_callback w h (OrderPayload p)))))
       \<and> (py_eq_str (py_get d ''type'' JNull) ''05''
           \<longrightarrow> order_timers (fst (handle_record w data s)) = order_timers s
             \<and> tasks (fst (handle_record w data s)) = tasks s
             \<and> trace (fst (handle_record w data s)) = trace s @
                 (case map_of (callbacks s) ''balance_update'' of
                    None \<Rightarrow> []
                  | Some h \<Rightarrow> [Called h (BalancePayload (parse_balance (wall_clock w) d))]))"
proof -
  have cb: "callbacks (fst (manage_order_timer p s)) = callbacks s"
    by (auto simp: manage_order_timer_def Let_def create_timer_task_def emit_def cancel_task_def
        split: option.splits sum.splits prod.splits)
  have a: "handle_record w data s =
                 (case manage_order_timer p s of
                    (s1, Some e) \<Rightarrow> (s1, Some e)
                  | (s1, None) \<Rightarrow>
                     (case map_of (callbacks s) ''order_execution'' of
                        None \<Rightarrow> (s1, None)
                      | Some h \<Rightarrow> (s1\<lparr>trace := trace s1 @ [Called h (OrderPayload p)]\<rparr>,
                                   run_callback w h (OrderPayload p))))"
    if "py_eq_str (py_get d ''type'' JNull) ''04'' \<or> py_eq_str (py_get d ''type'' JNull) ''00''"
      "parse_order_execution data = Inr p"
  proof (cases "manage_order_timer p s")
    case (Pair s1 r)
    with cb have "callbacks s1 = callbacks s" by simp
    with Pair that rec show ?thesis
      by (cases r) (auto simp: handle_record_def invoke_callback_def emit_def Let_def split: option.splits)
  qed
  have b: "order_timers (fst (handle_record w data s)) = order_timers s
             \<and> tasks (fst (handle_record w data s)) = tasks s
             \<and> trace (fst (handle_record w data s)) = trace s @
                 (case map_of (callbacks s) ''balance_update'' of
                    None \<Rightarrow> []
                  | Some h \<Rightarrow> [Called h (BalancePayload (parse_balance (wall_clock w) d))])"
    if "py_eq_str (py_get d ''type'' JNull) ''05''"
  proof -
    from that have "\<not> (py_eq_str (py_get d ''type'' JNull) ''04'' \<or> py_eq_str (py_get d ''type'' JNull) ''00'')"
      by (cases "py_get d ''type'' JNull") auto
    with that rec show ?thesis
      by (auto simp: handle_record_def invoke_callback_def emit_def Let_def split: option.splits)
  qed
  from a b show ?thesis by blast
qed


theorem numeric_fields_default_to_zero_witness:
  "dict_of (scenario_record ''O1'' ST_RECEIVED) = Inr (scenario_fields ''O1'' ST_RECEIVED)
   \<and> dict_of (py_get (scenario_fields ''O1'' ST_RECEIVED) ''values'' (JObj []))
        = Inr (scenario_values ''O1'' ST_RECEIVED)
   \<and> map_of (scenario_values ''O1'' ST_RECEIVED) ''900'' = Some (JStr [])
   \<and> map_of (scenario_values ''O1'' ST_RECEIVED) ''911'' = Some (JStr ''abc'') \<and> py_int ''abc'' = None
   \<and> map_of (scenario_values ''O1'' ST_RECEIVED) ''910'' = Some (JStr '' '') \<and> py_int '' '' = None
   \<and> map_of (scenario_values ''O1'' ST_RECEIVED) ''902'' = Some (JStr ''12.5'') \<and> py_int ''12.5'' = None
   \<and> (\<exists>p. parse_order_execution (scenario_record ''O1'' ST_RECEIVED) = Inr p
          \<and> order_qty p = 0 \<and> exec_qty p = 0 \<and> exec_price p = 0 \<and> remain_qty p = 0
          \<and> snd (handle_record quiet_callbacks (scenario_record ''O1'' ST_RECEIVED) listening_ws) = None
          \<and> handle_records quiet_callbacks [scenario_record ''O1'' ST_RECEIVED, JObj balance_fields] listening_ws
              = handle_records quiet_callbacks [JObj balance_fields]
                  (fst (handle_record quiet_callbacks (scenario_record ''O1'' ST_RECEIVED) listening_ws)))"
proof -
  have a: "dict_of (scenario_record ''O1'' ST_RECEIVED) = Inr (scenario_fields ''O1'' ST_RECEIVED)"
    by (simp add: scenario_record_def)
  have b: "dict_of (py_get (scenario_fields ''O1'' ST_RECEIVED) ''values'' (JObj []))
        = Inr (scenario_values ''O1'' ST_RECEIVED)"
    by (simp add: scenario_fields_def py_get_def)
  have n: "py_int ''abc'' = None" "py_int '' '' = None" "py_int ''12.5'' = None"
    by code_simp+
  have c: "\<forall>f \<in> set [''900'', ''911'', ''910'', ''902''].
        \<exists>t. map_of (scenario_values ''O1'' ST_RECEIVED) f = Some (JStr t) \<and> (t = [] \<or> py_int t = None)"
    using n by (simp add: scenario_values_def)
  have ty: "py_eq_str (py_get (scenario_fields ''O1'' ST_RECEIVED) ''type'' JNull) ''04''
          \<or> py_eq_str (py_get (scenario_fields ''O1'' ST_RECEIVED) ''type'' JNull) ''00''"
    by (simp add: scenario_fields_def py_get_def)
  have q: "\<forall>h x. run_callback quiet_callbacks h x = None" by (simp add: quiet_callbacks_def)
  from numeric_fields_default_to_zero[OF a b c, of quiet_callbacks listening_ws "[JObj balance_fields]"]
  obtain p where p: "parse_order_execution (scenario_record ''O1'' ST_RECEIVED) = Inr p"
      "order_qty p = 0" "exec_qty p = 0" "exec_price p = 0" "remain_qty p = 0"
      "(py_eq_str (py_get (scenario_fields ''O1'' ST_RECEIVED) ''type'' JNull) ''04''
          \<or> py_eq_str (py_get (scenario_fields ''O1'' ST_RECEIVED) ''type'' JNull) ''00'')
        \<longrightarrow> (\<exists>k. py_key (order_no p) = Inr k)
        \<longrightarrow> (\<forall>h x. run_callback quiet_callbacks h x = None)
        \<longrightarrow> snd (handle_record quiet_callbacks (scenario_record ''O1'' ST_RECEIVED) listening_ws) = None
            \<and> handle_records quiet_callbacks (scenario_record ''O1'' ST_RECEIVED # [JObj balance_fields]) listening_ws
                = handle_records quiet_callbacks [JObj balance_fields]
                    (fst (handle_record quiet_callbacks (scenario_record ''O1'' ST_RECEIVED) listening_ws))"
    by blast
  from p(1) a b have "order_no p = JStr ''O1''"
    by (auto simp: parse_order_execution_def Let_def scenario_values_def py_get_def)
  then have k: "\<exists>k. py_key (order_no p) = Inr k" by simp
  from p(6) ty k q have
    "snd (handle_record quiet_callbacks (scenario_record ''O1'' ST_RECEIVED) listening_ws) = None
     \<and> handle_records quiet_callbacks (scenario_record ''O1'' ST_RECEIVED # [JObj balance_fields]) listening_ws
                = handle_records quiet_callbacks [JObj balance_fields]
                    (fst (handle_record quiet_callbacks (scenario_record ''O1'' ST_RECEIVED) listening_ws))"
    by blast
  moreover have "map_of (scenario_values ''O1'' ST_RECEIVED) ''900'' = Some (JStr [])"
    "map_of (scenario_values ''O1'' ST_RECEIVED) ''911'' = Some (JStr ''abc'')"
    "map_of (scenario_values ''O1'' ST_RECEIVED) ''910'' = Some (JStr '' '')"
    "map_of (scenario_values ''O1'' ST_RECEIVED) ''902'' = Some (JStr ''12.5'')"
    by (simp_all add: scenario_values_def)
  ultimately show ?thesis using a b n p by blast
qed

theorem router_order_then_handler_witness:
  "dict_of (scenario_record ''O1'' ST_RECEIVED) = Inr (scenario_fields ''O1'' ST_RECEIVED)
   \<and> py_eq_str (py_get (scenario_fields ''O1'' ST_RECEIVED) ''type'' JNull) ''00''
   \<and> parse_order_execution (scenario_record ''O1'' ST_RECEIVED) = Inr (scenario_order ''O1'' ST_RECEIVED)
   \<and> trace (fst (handle_record quiet_callbacks (scenario_record ''O1'' ST_RECEIVED) listening_ws))
       = [LogTimerStarted (JStr ''O1''),
          Called ''on_order_execution'' (OrderPayload (scenario_order ''O1'' ST_RECEIVED))]
   \<and> order_timers (fst (handle_record quiet_callbacks (scenario_record ''O1'' ST_RECEIVED) listening_ws))
       = [(KStr ''O1'', 0)]
   \<and> dict_of (JObj balance_fields) = Inr balance_fields
   \<and> py_eq_str (py_get balance_fields ''type'' JNull) ''05''
   \<and> order_timers (fst (handle_record quiet_callbacks (JObj balance_fields) listening_ws))
       = order_timers listening_ws
   \<and> trace (fst (handle_record quiet_callbacks (JObj balance_fields) listening_ws))
       = [Called ''on_balance'' (BalancePayload (parse_balance (wall_clock quiet_callbacks) balance_fields))]"
proof -
  let ?D = "scenario_record ''O1'' ST_RECEIVED" and ?P = "scenario_order ''O1'' ST_RECEIVED"
  have a: "dict_of ?D = Inr (scenario_fields ''O1'' ST_RECEIVED)"
    by (simp add: scenario_record_def)
  have ty: "py_eq_str (py_get (scenario_fields ''O1'' ST_RECEIVED) ''type'' JNull) ''00''"
    by (simp add: scenario_fields_def py_get_def)
  have p: "parse_order_execution ?D = Inr ?P" by code_simp
  have m: "snd (manage_order_timer ?P listening_ws) = None"
    "trace (fst (manage_order_timer ?P listening_ws)) = [LogTimerStarted (JStr ''O1'')]"
    "order_timers (fst (manage_order_timer ?P listening_ws)) = [(KStr ''O1'', 0)]"
    by code_simp+
  have cb: "map_of (callbacks listening_ws) ''order_execution'' = Some ''on_order_execution''"
    "map_of (callbacks listening_ws) ''balance_update'' = Some ''on_balance''"
    "trace listening_ws = []"
    by code_simp+
  from router_order_then_handler[OF a, of ?P quiet_callbacks listening_ws] ty p
  have h: "handle_record quiet_callbacks ?D listening_ws =
                 (case manage_order_timer ?P listening_ws of
                    (s1, Some e) \<Rightarrow> (s1, Some e)
                  | (s1, None) \<Rightarrow>
                     (case map_of (callbacks listening_ws) ''order_execution'' of
                        None \<Rightarrow> (s1, None)
                      | Some h \<Rightarrow> (s1\<lparr>trace := trace s1 @ [Called h (OrderPayload ?P)]\<rparr>,
                                   run_callback quiet_callbacks h (OrderPayload ?P))))"
    by blast
  have o: "trace (fst (handle_record quiet_callbacks ?D listening_ws))
       = [LogTimerStarted (JStr ''O1''), Called ''on_order_execution'' (OrderPayload ?P)]"
     "order_timers (fst (handle_record quiet_callbacks ?D listening_ws)) = [(KStr ''O1'', 0)]"
    using m cb(1) unfolding h by (cases "manage_order_timer ?P listening_ws"; simp)+
  have b: "dict_of (JObj balance_fields) = Inr balance_fields" by simp
  have tb: "py_eq_str (py_get balance_fields ''type'' JNull) ''05''"
    by (simp add: balance_fields_def py_get_def)
  from router_order_then_handler[OF b, of ?P quiet_callbacks listening_ws] tb cb
  have "order_timers (fst (handle_record quiet_callbacks (JObj balance_fields) listening_ws))
       = order_timers listening_ws"
    "trace (fst (handle_record quiet_callbacks (JObj balance_fields) listening_ws))
       = [Called ''on_balance'' (BalancePayload (parse_balance (wall_clock quiet_callbacks) balance_fields))]"
    by simp_all
  with a ty p o b tb show ?thesis by simp
qed


section \<open>Properties of the receive loop\<close>

lemma manage_is_connected:
  "is_connected (fst (manage_order_timer p s)) = is_connected s"
  by (auto simp: manage_order_timer_def Let_def create_timer_task_def emit_def cancel_task_def
      split: option.splits sum.splits prod.splits)

lemma invoke_callback_frame:
  "is_connected (fst (invoke_callback w name x s)) = is_connected s"
  "order_timers (fst (invoke_callback w name x s)) = order_timers s"
  "tasks (fst (invoke_callback w name x s)) = tasks s"
  by (auto simp: invoke_callback_def emit_def split: option.splits)

lemma handle_record_is_connected:
  "is_connected (fst (handle_record w data s)) = is_connected s"
proof (cases "dict_of data")
  case (Inl e)
  then show ?thesis by (simp add: handle_record_def)
next
  case (Inr d)
  show ?thesis
  proof (cases "parse_order_execution data")
    case (Inl e)
    with Inr show ?thesis by (simp add: handle_record_def Let_def invoke_callback_frame)
  next
    case (Inr p)
    obtain s1 r where m: "manage_order_timer p s = (s1, r)" by (cases "manage_order_timer p s")
    with manage_is_connected[of p s] have "is_connected s1 = is_connected s" by simp
    with m Inr \<open>dict_of data = Inr d\<close> show ?thesis
      by (cases r) (simp_all add: handle_record_def Let_def invoke_callback_frame)
  qed
qed

lemma handle_records_is_connected:
  "is_connected (fst (handle_records w ds s)) = is_connected s"
proof (induction ds arbitrary: s)
  case Nil
  then show ?case by simp
next
  case (Cons d ds)
  obtain s1 r where h: "handle_record w d s = (s1, r)" by (cases "handle_record w d s")
  with handle_record_is_connected[of w d s] have c: "is_connected s1 = is_connected s" by simp
  show ?case
  proof (cases r)
    case None
    with h c Cons.IH[of s1] show ?thesis by simp
  next
    case (Some e)
    with h c show ?thesis by simp
  qed
qed

lemma handle_records_append_raise:
  assumes "handle_records w pre s = (s0, None)" "handle_record w data s0 = (s1, Some e)"
  shows "handle_records w (pre @ data # post) s = (s1, Some e)"
  using assms
proof (induction pre arbitrary: s)
  case Nil
  then show ?case by simp
next
  case (Cons d ds)
  obtain sa r where h: "handle_record w d s = (sa, r)" by (cases "handle_record w d s")
  with Cons.prems(1) have r: "r = None" and rest: "handle_records w ds sa = (s0, None)"
    by (cases r; simp)+
  from Cons.IH[OF rest Cons.prems(2)] h r show ?case by simp
qed

text \<open>A raising callback, seen from the router.\<close>

lemma handle_record_callback_raises:
  assumes rec: "dict_of data = Inr d"
    and h: "((py_eq_str (py_get d ''type'' JNull) ''04'' \<or> py_eq_str (py_get d ''type'' JNull) ''00'')
             \<and> parse_order_execution data = Inr p \<and> manage_order_timer p s0 = (sm, None)
             \<and> map_of (callbacks s0) ''order_execution'' = Some h
             \<and> x = OrderPayload p)
          \<or> (py_eq_str (py_get d ''type'' JNull) ''05'' \<and> sm = s0
             \<and> map_of (callbacks s0) ''balance_update'' = Some h
             \<and> x = BalancePayload (parse_balance (wall_clock w) d))"
    and e: "run_callback w h x = Some e"
  shows "handle_record w data s0 = (emit (Called h x) sm, Some e)"
proof (rule disjE[OF h])
  assume A: "(py_eq_str (py_get d ''type'' JNull) ''04'' \<or> py_eq_str (py_get d ''type'' JNull) ''00'')
             \<and> parse_order_execution data = Inr p \<and> manage_order_timer p s0 = (sm, None)
             \<and> map_of (callbacks s0) ''order_execution'' = Some h
             \<and> x = OrderPayload p"
  have "callbacks (fst (manage_order_timer p s0)) = callbacks s0"
    by (auto simp: manage_order_timer_def Let_def create_timer_task_def emit_def cancel_task_def
        split: option.splits sum.splits prod.splits)
  with A have "callbacks sm = callbacks s0" by simp
  with A rec e show ?thesis
    by (auto simp: handle_record_def invoke_callback_def Let_def)
next
  assume B: "py_eq_str (py_get d ''type'' JNull) ''05'' \<and> sm = s0
             \<and> map_of (callbacks s0) ''balance_update'' = Some h
             \<and> x = BalancePayload (parse_balance (wall_clock w) d)"
  then have "\<not> (py_eq_str (py_get d ''type'' JNull) ''04'' \<or> py_eq_str (py_get d ''type'' JNull) ''00'')"
    by (cases "py_get d ''type'' JNull") auto
  with B rec e show ?thesis
    by (auto simp: handle_record_def invoke_callback_def Let_def)
qed

text \<open>
  Claim C8, as amended. Let a realtime frame arrive on a connected client, let the records
  before \<open>data\<close> pass without an exception, and let the callback registered for \<open>data\<close>
  (the order callback after the supervisor has run, or the balance callback) raise an
  exception \<open>e\<close> that derives from \<open>Exception\<close> and is not \<open>ConnectionClosed\<close>. Then the
  loop catches and logs \<open>e\<close> and goes on with the next inbound frame, still connected;
  the state it goes on with is the state \<open>sm\<close> that the supervisor established for the
  event, with the call and the log line added to the trace, so timer map and timer tasks
  are those of \<open>sm\<close>. The records after \<open>data\<close> in the same frame are not processed.
\<close>

theorem handler_exception_is_logged:
  assumes conn: "is_connected s"
    and dec: "json_loads m = Some response" "dict_of response = Inr r"
    and real: "py_eq_str (py_get r ''trnm'' (JStr [])) ''REAL''"
    and recs: "py_iter (py_get r ''data'' (JArr [])) = Inr (pre @ data # post)"
    and pre: "handle_records w pre s = (s0, None)"
    and rec: "dict_of data = Inr d"
    and h: "((py_eq_str (py_get d ''type'' JNull) ''04'' \<or> py_eq_str (py_get d ''type'' JNull) ''00'')
             \<and> parse_order_execution data = Inr p \<and> manage_order_timer p s0 = (sm, None)
             \<and> map_of (callbacks s0) ''order_execution'' = Some h
             \<and> x = OrderPayload p)
          \<or> (py_eq_str (py_get d ''type'' JNull) ''05'' \<and> sm = s0
             \<and> map_of (callbacks s0) ''balance_update'' = Some h
             \<and> x = BalancePayload (parse_balance (wall_clock w) d))"
    and e: "run_callback w h x = Some e"
    and exc: "is_Exception e" "e \<noteq> ConnectionClosed"
  shows "receive_messages w (Text m # later) s =
           receive_messages w later
             (sm\<lparr>trace := trace sm @ [Called h x,
                 if e = JSONDecodeError then LogJsonError else LogReceiveError e]\<rparr>)
       \<and> is_connected sm"
proof -
  from handle_record_callback_raises[OF rec h e]
  have hr: "handle_record w data s0 = (emit (Called h x) sm, Some e)" .
  from handle_records_append_raise[OF pre hr]
  have hs: "handle_records w (pre @ data # post) s = (emit (Called h x) sm, Some e)" .
  from real have nl: "\<not> py_eq_str (py_get r ''trnm'' (JStr [])) ''LOGIN''"
    and np: "\<not> py_eq_str (py_get r ''trnm'' (JStr [])) ''PING''"
    by (cases "py_get r ''trnm'' (JStr [])"; auto)+
  have d: "dispatch w response s = (emit (Called h x) sm, Raise e)"
    using dec(2) real nl np recs hs by (simp add: dispatch_def handle_realtime_data_def Let_def)
  have t: "try_body w (Text m) s = (emit (Called h x) sm, Raise e)"
    using dec(1) d by (simp add: try_body_def)
  have c0: "is_connected s0" using handle_records_is_connected[of w pre s] pre conn by simp
  have cm: "is_connected sm"
    using handle_record_is_connected[of w data s0] hr c0 by (simp add: emit_def)
  have r1: "receive_one w (Text m) s =
      (sm\<lparr>trace := trace sm @ [Called h x,
                 if e = JSONDecodeError then LogJsonError else LogReceiveError e]\<rparr>, Continue)"
    using t exc by (simp add: receive_one_def emit_def)
  show ?thesis using conn r1 cm by simp
qed

text \<open>
  Claim C8 as stated fails for a callback that raises \<open>websockets.ConnectionClosed\<close>: the
  first \<open>except\<close> clause of the loop takes it for a closed socket, clears \<open>is_connected\<close>
  and leaves the loop. The heartbeat that arrives next is never answered. The timer
  that the event armed stays in place.
\<close>

theorem handler_connection_closed_counterexample:
  "is_Exception ConnectionClosed
   \<and> json_loads real_frame = Some (JObj real_fields)
   \<and> json_loads ping_compact = Some (JObj [(''trnm'', JStr ''PING'')])
   \<and> is_connected listening_ws
   \<and> snd (receive_messages (failing_callbacks ConnectionClosed)
             [Text real_frame, Text ping_compact] listening_ws) = Stopped
   \<and> \<not> is_connected (fst (receive_messages (failing_callbacks ConnectionClosed)
             [Text real_frame, Text ping_compact] listening_ws))
   \<and> trace (fst (receive_messages (failing_callbacks ConnectionClosed)
             [Text real_frame, Text ping_compact] listening_ws))
       = [LogTimerStarted (JStr ''O1''),
          Called ''on_order_execution'' (OrderPayload real_order),
          LogConnectionClosed]"
  by code_simp


theorem handler_exception_is_logged_witness:
  "is_connected listening_ws
   \<and> json_loads real_frame = Some (JObj real_fields)
   \<and> parse_order_execution (JObj real_order_fields) = Inr real_order
   \<and> run_callback (failing_callbacks (UserError ''database down'')) ''on_order_execution''
         (OrderPayload real_order) = Some (UserError ''database down'')
   \<and> is_Exception (UserError ''database down'')
   \<and> UserError ''database down'' \<noteq> ConnectionClosed
   \<and> receive_messages (failing_callbacks (UserError ''database down''))
         [Text real_frame, Text ping_compact] listening_ws
       = receive_messages (failing_callbacks (UserError ''database down'')) [Text ping_compact]
           ((fst (manage_order_timer real_order listening_ws))
              \<lparr>trace := trace (fst (manage_order_timer real_order listening_ws))
                 @ [Called ''on_order_execution'' (OrderPayload real_order),
                    LogReceiveError (UserError ''database down'')]\<rparr>)
   \<and> order_timers (fst (manage_order_timer real_order listening_ws)) = [(KStr ''O1'', 0)]
   \<and> is_connected (fst (manage_order_timer real_order listening_ws))"
proof -
  let ?w = "failing_callbacks (UserError ''database down'')"
  let ?sm = "fst (manage_order_timer real_order listening_ws)"
  have conn: "is_connected listening_ws" by code_simp
  have dec: "json_loads real_frame = Some (JObj real_fields)" "dict_of (JObj real_fields) = Inr real_fields"
    by code_simp+
  have real: "py_eq_str (py_get real_fields ''trnm'' (JStr [])) ''REAL''" by code_simp
  have recs: "py_iter (py_get real_fields ''data'' (JArr [])) = Inr ([] @ JObj real_order_fields # [JObj balance_fields])"
    by code_simp
  have pre: "handle_records ?w [] listening_ws = (listening_ws, None)" by simp
  have rec: "dict_of (JObj real_order_fields) = Inr real_order_fields" by simp
  have p: "parse_order_execution (JObj real_order_fields) = Inr real_order" by code_simp
  have m: "manage_order_timer real_order listening_ws = (?sm, None)" by code_simp
  have ty: "py_eq_str (py_get real_order_fields ''type'' JNull) ''04''
              \<or> py_eq_str (py_get real_order_fields ''type'' JNull) ''00''" by code_simp
  have cb: "map_of (callbacks listening_ws) ''order_execution'' = Some ''on_order_execution''"
    by code_simp
  have h: "((py_eq_str (py_get real_order_fields ''type'' JNull) ''04''
              \<or> py_eq_str (py_get real_order_fields ''type'' JNull) ''00'')
             \<and> parse_order_execution (JObj real_order_fields) = Inr real_order
             \<and> manage_order_timer real_order listening_ws = (?sm, None)
             \<and> map_of (callbacks listening_ws) ''order_execution'' = Some ''on_order_execution''
             \<and> OrderPayload real_order = OrderPayload real_order)
          \<or> (py_eq_str (py_get real_order_fields ''type'' JNull) ''05'' \<and> ?sm = listening_ws
             \<and> map_of (callbacks listening_ws) ''balance_update'' = Some ''on_order_execution''
             \<and> OrderPayload real_order = BalancePayload (parse_balance (wall_clock ?w) real_order_fields))"
    using ty p m cb by blast
  have e: "run_callback ?w ''on_order_execution'' (OrderPayload real_order) = Some (UserError ''database down'')"
    by (simp add: failing_callbacks_def)
  have exc: "is_Exception (UserError ''database down'')" "UserError ''database down'' \<noteq> ConnectionClosed"
    by simp_all
  have t: "order_timers ?sm = [(KStr ''O1'', 0)]" by code_simp
  from handler_exception_is_logged[OF conn dec real recs pre rec h e exc, of "[Text ping_compact]"]
    conn dec(1) p e exc t
  show ?thesis by simp
qed

text \<open>
  Claim C5, as amended. For every inbound text frame that decodes to an object whose
  \<open>trnm\<close> is \<open>PING\<close>, the loop sends back exactly one frame, \<open>json.dumps\<close> of the decoded
  object, changes nothing else in the state, and goes on. The answer is the received
  frame written again, not the received bytes.
\<close>

theorem heartbeat_echo:
  assumes dec: "json_loads m = Some response" "dict_of response = Inr r"
    and ping: "py_eq_str (py_get r ''trnm'' (JStr [])) ''PING''"
  shows "receive_one w (Text m) s = (s\<lparr>trace := trace s @ [Sent (json_dumps response)]\<rparr>, Continue)"
proof -
  from ping have nl: "\<not> py_eq_str (py_get r ''trnm'' (JStr [])) ''LOGIN''"
    by (cases "py_get r ''trnm'' (JStr [])") auto
  have "dispatch w response s = (emit (Sent (json_dumps response)) s, Normal)"
    using dec(2) ping nl by (simp add: dispatch_def Let_def)
  then show ?thesis using dec(1) by (simp add: receive_one_def try_body_def emit_def)
qed

theorem heartbeat_echo_witness:
  "json_loads ping_spaced = Some (JObj [(''trnm'', JStr ''PING'')])
   \<and> dict_of (JObj [(''trnm'', JStr ''PING'')]) = Inr [(''trnm'', JStr ''PING'')]
   \<and> py_eq_str (py_get [(''trnm'', JStr ''PING'')] ''trnm'' (JStr [])) ''PING''
   \<and> json_dumps (JObj [(''trnm'', JStr ''PING'')]) = ping_spaced
   \<and> receive_one quiet_callbacks (Text ping_spaced) listening_ws
       = (listening_ws\<lparr>trace := trace listening_ws @ [Sent ping_spaced]\<rparr>, Continue)"
proof -
  have a: "json_loads ping_spaced = Some (JObj [(''trnm'', JStr ''PING'')])" by code_simp
  have b: "dict_of (JObj [(''trnm'', JStr ''PING'')]) = Inr [(''trnm'', JStr ''PING'')]" by simp
  have c: "py_eq_str (py_get [(''trnm'', JStr ''PING'')] ''trnm'' (JStr [])) ''PING''" by code_simp
  have d: "json_dumps (JObj [(''trnm'', JStr ''PING'')]) = ping_spaced" by code_simp
  from heartbeat_echo[OF a b c, of quiet_callbacks listening_ws] a b c d show ?thesis by simp
qed

text \<open>
  Claim C5 as stated fails for a heartbeat in compact form: the answer has a space after
  the colon, so it is not the received text, though both decode to the same object.
\<close>

theorem heartbeat_echo_counterexample:
  "json_loads ping_compact = Some (JObj [(''trnm'', JStr ''PING'')])
   \<and> trace listening_ws = []
   \<and> trace (fst (receive_one quiet_callbacks (Text ping_compact) listening_ws)) = [Sent ping_spaced]
   \<and> ping_spaced \<noteq> ping_compact
   \<and> json_loads ping_spaced = json_loads ping_compact"
  by code_simp

section \<open>Properties of the trading window and of the session scheduler\<close>

text \<open>
  Claim C7. With the window 09:01 to 15:30, on a weekday (Monday to Friday) 09:00:59 is
  outside, whatever the microseconds, 09:01:00 is inside and 15:30:00 is inside; on a
  Saturday or a Sunday every time of day is outside. The end is inclusive at 15:30:00
  sharp: the comparison is on the full time of day, microseconds included.
\<close>

theorem trading_window_boundaries:
  assumes "START_HOUR c = 9" "START_MINUTE c = 1" "END_HOUR c = 15" "END_MINUTE c = 30"
  shows "(wd < 5 \<longrightarrow>
            is_trading_time c \<lparr>weekday = wd, hour = 9, minute = 0, second = 59, microsecond = us\<rparr> = Inr False
          \<and> is_trading_time c \<lparr>weekday = wd, hour = 9, minute = 1, second = 0, microsecond = us\<rparr> = Inr True
          \<and> is_trading_time c \<lparr>weekday = wd, hour = 15, minute = 30, second = 0, microsecond = 0\<rparr> = Inr True)
       \<and> (5 \<le> weekday now \<longrightarrow> is_trading_time c now = Inr False)"
  using assms by (simp add: is_trading_time_def mk_time_def time_of_def)

theorem trading_window_boundaries_witness:
  "START_HOUR krx_window = 9 \<and> START_MINUTE krx_window = 1
   \<and> END_HOUR krx_window = 15 \<and> END_MINUTE krx_window = 30 \<and> (2::nat) < 5
   \<and> is_trading_time krx_window \<lparr>weekday = 2, hour = 9, minute = 0, second = 59, microsecond = 999999\<rparr> = Inr False
   \<and> is_trading_time krx_window \<lparr>weekday = 2, hour = 9, minute = 1, second = 0, microsecond = 0\<rparr> = Inr True
   \<and> is_trading_time krx_window \<lparr>weekday = 2, hour = 15, minute = 30, second = 0, microsecond = 0\<rparr> = Inr True
   \<and> (5::nat) \<le> weekday \<lparr>weekday = 5, hour = 10, minute = 0, second = 0, microsecond = 0\<rparr>
   \<and> is_trading_time krx_window \<lparr>weekday = 5, hour = 10, minute = 0, second = 0, microsecond = 0\<rparr> = Inr False"
proof -
  have c: "START_HOUR krx_window = 9" "START_MINUTE krx_window = 1"
    "END_HOUR krx_window = 15" "END_MINUTE krx_window = 30"
    by (simp_all add: krx_window_def)
  from trading_window_boundaries[OF c, of 2 999999 "\<lparr>weekday = 5, hour = 10, minute = 0, second = 0, microsecond = 0\<rparr>"]
    trading_window_boundaries[OF c, of 2 0 "\<lparr>weekday = 5, hour = 10, minute = 0, second = 0, microsecond = 0\<rparr>"] c
  show ?thesis by simp
qed

text \<open>
  Claim C10. When trading is already active, \<open>start_trading\<close> returns at once: the state of
  \<open>TradingMain\<close> is the same in every field, the socket client included, no collaborator is
  called (no balance query, no connect, no subscribe, no trading task), nothing is raised.
\<close>

theorem start_trading_when_active:
  assumes "is_trading_active ms"
  shows "start_trading w ms = (ms, None)"
  using assms by (simp add: start_trading_def)

theorem start_trading_when_active_witness:
  "is_trading_active ((init_main krx_window (Some ''12345678''))\<lparr>is_trading_active := True\<rparr>)
   \<and> start_trading calm_world ((init_main krx_window (Some ''12345678''))\<lparr>is_trading_active := True\<rparr>)
       = ((init_main krx_window (Some ''12345678''))\<lparr>is_trading_active := True\<rparr>, None)"
proof -
  have a: "is_trading_active ((init_main krx_window (Some ''12345678''))\<lparr>is_trading_active := True\<rparr>)"
    by simp
  from start_trading_when_active[OF a, of calm_world] a show ?thesis by simp
qed

text \<open>
  Claim C6 as stated fails when the scheduler is inactive at shutdown. Started on a
  Saturday morning and interrupted before the window opens, the process calls no
  collaborator but \<open>disconnect\<close>: nothing is sold, and no socket was opened that could be
  closed.
\<close>

theorem shutdown_while_inactive_counterexample:
  "is_trading_active (try_block calm_world saturday_10am [] (init_main krx_window (Some ''12345678''))) = False
   \<and> calls (fst (start calm_world saturday_10am [] (init_main krx_window (Some ''12345678''))))
       = [WsDisconnect]
   \<and> count_list (calls (fst (start calm_world saturday_10am [] (init_main krx_window (Some ''12345678'')))))
         SellAllPositions \<noteq> 1
   \<and> trace (ws_client (fst (start calm_world saturday_10am [] (init_main krx_window (Some ''12345678''))))) = []"
  by code_simp

text \<open>
  Claim C6, as amended. Whenever the \<open>try\<close> block of \<open>start\<close> is left, by an exception or
  by the interrupt of the keyboard, the \<open>finally\<close> block calls \<open>stop_trading\<close> once. If
  trading is active at that moment, all positions are sold, exactly once; when the sale
  returns, a running trading task is cancelled and then \<open>disconnect\<close> is called; when the
  sale raises, its exception leaves \<open>start\<close> and neither the cancellation nor
  \<open>disconnect\<close> happens. If trading is inactive, the guard of \<open>stop_trading\<close> returns at
  once, nothing is sold or cancelled, and only \<open>disconnect\<close> is called, whatever a sale
  would have done. Trading is inactive at the end in every case, and \<open>disconnect\<close>
  closes the socket if one was opened.
\<close>

theorem shutdown_sequence:
  "calls (fst (start w now later ms)) =
     calls (try_block w now later ms)
     @ (if is_trading_active (try_block w now later ms) then
          SellAllPositions #
          (case sell_result w of
             Some e \<Rightarrow> []
           | None \<Rightarrow>
              (if trading_task (try_block w now later ms) = TaskRunning then [CancelTradingTask] else [])
              @ [WsDisconnect])
        else [WsDisconnect])
   \<and> snd (start w now later ms) =
       (if is_trading_active (try_block w now later ms) then sell_result w else None)
   \<and> \<not> is_trading_active (fst (start w now later ms))
   \<and> ws_client (fst (start w now later ms)) =
       (if is_trading_active (try_block w now later ms) \<and> sell_result w \<noteq> None
        then ws_client (try_block w now later ms)
        else disconnect (ws_client (try_block w now later ms)))"
  by (cases "sell_result w")
     (simp_all add: start_def shutdown_def stop_trading_def record_call_def Let_def)

theorem shutdown_sequence_witness:
  "is_trading_active (try_block calm_world wednesday_10am [] (init_main krx_window (Some ''12345678'')))
   \<and> calls (fst (start calm_world wednesday_10am [] (init_main krx_window (Some ''12345678''))))
       = [GetAccountBalance, UpsertAccountInfo, WsConnect, WsSubscribe, SellAllPositions, WsDisconnect]
   \<and> snd (start calm_world wednesday_10am [] (init_main krx_window (Some ''12345678''))) = None
   \<and> \<not> is_trading_active (fst (start calm_world wednesday_10am [] (init_main krx_window (Some ''12345678''))))
   \<and> last (trace (ws_client (fst (start calm_world wednesday_10am [] (init_main krx_window (Some ''12345678''))))))
       = SocketClosed
   \<and> is_trading_active (try_block failing_sale_world wednesday_10am [] (init_main krx_window (Some ''12345678'')))
   \<and> calls (fst (start failing_sale_world wednesday_10am [] (init_main krx_window (Some ''12345678''))))
       = [GetAccountBalance, UpsertAccountInfo, WsConnect, WsSubscribe, SellAllPositions]
   \<and> snd (start failing_sale_world wednesday_10am [] (init_main krx_window (Some ''12345678'')))
       = Some (UserError ''order rejected'')
   \<and> calls (fst (start failing_sale_world saturday_10am [] (init_main krx_window (Some ''12345678''))))
       = [WsDisconnect]
   \<and> calls (fst (start failing_sale_world wednesday_10am [wednesday_1531]
                      (init_main krx_window (Some ''12345678''))))
       = [GetAccountBalance, UpsertAccountInfo, WsConnect, WsSubscribe, SellAllPositions, WsDisconnect]"
proof -
  let ?ms = "init_main krx_window (Some ''12345678'')"
  have a: "sell_result calm_world = None"
    "sell_result failing_sale_world = Some (UserError ''order rejected'')"
    by (simp_all add: calm_world_def failing_sale_world_def)
  have b: "is_trading_active (try_block calm_world wednesday_10am [] ?ms)"
    "calls (try_block calm_world wednesday_10am [] ?ms) = [GetAccountBalance, UpsertAccountInfo, WsConnect, WsSubscribe]"
    "trading_task (try_block calm_world wednesday_10am [] ?ms) = NoTask"
    "websocket (ws_client (try_block calm_world wednesday_10am [] ?ms))"
    by code_simp+
  have c: "is_trading_active (try_block failing_sale_world wednesday_10am [] ?ms)"
    "calls (try_block failing_sale_world wednesday_10am [] ?ms) = [GetAccountBalance, UpsertAccountInfo, WsConnect, WsSubscribe]"
    by code_simp+
  have d: "\<not> is_trading_active (try_block failing_sale_world saturday_10am [] ?ms)"
    "calls (try_block failing_sale_world saturday_10am [] ?ms) = []"
    by code_simp+
  have e: "\<not> is_trading_active (try_block failing_sale_world wednesday_10am [wednesday_1531] ?ms)"
    "calls (try_block failing_sale_world wednesday_10am [wednesday_1531] ?ms)
       = [GetAccountBalance, UpsertAccountInfo, WsConnect, WsSubscribe, SellAllPositions]"
    by code_simp+
  from shutdown_sequence[of calm_world wednesday_10am "[]" ?ms]
    shutdown_sequence[of failing_sale_world wednesday_10am "[wednesday_1531]" ?ms] e
    shutdown_sequence[of failing_sale_world wednesday_10am "[]" ?ms]
    shutdown_sequence[of failing_sale_world saturday_10am "[]" ?ms] a b c d
  show ?thesis by (simp add: disconnect_def emit_def)
qed

end
